theory Spec2Isabelle
  imports Complex_Main
begin

section \<open>Python values, exceptions and text\<close>

text \<open>
  The module \<^verbatim>\<open>ocp_vscode/comms.py\<close> sends CAD data and commands to a viewer over a
  websocket and listens for status updates. Its functions are embedded here as HOL
  functions: an exception is the \<open>Inl\<close> of a sum, the module globals, the State Store
  file and the traffic on the network are fields of one record that every function takes
  and returns. Text written to standard output by \<^verbatim>\<open>print\<close> is not part of the model.
  A text is the list of its characters, each a code point below 256.
\<close>

type_synonym bytes = string

text \<open>
  Exceptions, all of them subclasses of \<^verbatim>\<open>Exception\<close>. The text of \<open>TypeError\<close> and
  \<open>RuntimeError\<close> is the message of the \<^verbatim>\<open>raise\<close> statement; for the others it names
  the offending value.
\<close>

datatype exn =
    TypeError string
  | ValueError string
  | KeyError string
  | AttributeError string
  | RuntimeError string
  | OverflowError string
  | OSError string
  | ConnectionClosed

text \<open>
  The values a payload or a parsed message is made of. A float is kept by its exact
  value (no NaN, no infinity); a dictionary is the list of its items in insertion order,
  with text keys. The three kinds of object the serializer hook converts carry the result
  of the conversion, which the CAD collaborator computes: a shape the base64 text of its
  serialization, a location its translation and quaternion, an enum member its value.
  \<open>NativeObject\<close> is an object of a type the JSON encoder writes by itself, without the
  hook (a tuple, a date or time, a UUID, a dataclass instance, an instance of a subclass
  of \<^verbatim>\<open>str\<close>, \<^verbatim>\<open>int\<close>, \<^verbatim>\<open>list\<close> or \<^verbatim>\<open>dict\<close>), with the text of its type and the value
  it is written as. \<open>Object\<close> is any other object, which the encoder can only pass to
  the hook, with the text of its type.
\<close>

datatype pyobj =
    PNone
  | PBool bool
  | PInt int
  | PFloat rat
  | PStr string
  | PList "pyobj list"
  | PDict "(string \<times> pyobj) list"
  | TopoDS_Shape string
  | TopLoc_Location pyobj
  | EnumMember pyobj
  | NativeObject string pyobj
  | Object string

fun num_value :: "pyobj \<Rightarrow> rat option" where
  "num_value (PBool b) = Some (if b then 1 else 0)"
| "num_value (PInt i) = Some (of_int i)"
| "num_value (PFloat q) = Some q"
| "num_value _ = None"

text \<open>
  Python's \<^verbatim>\<open>==\<close>: numbers (booleans among them) compare by value, lists item by item,
  dictionaries as sets of items, whatever the order.
\<close>

fun py_eq :: "pyobj \<Rightarrow> pyobj \<Rightarrow> bool" where
  "py_eq (PList xs) (PList ys) = list_all2 py_eq xs ys"
| "py_eq (PDict xs) (PDict ys) =
     (length xs = length ys \<and>
      list_all (\<lambda>kv. case map_of ys (fst kv) of None \<Rightarrow> False | Some w \<Rightarrow> py_eq (snd kv) w) xs)"
| "py_eq a b =
     (case (num_value a, num_value b) of
        (Some x, Some y) \<Rightarrow> x = y
      | (None, None) \<Rightarrow> a = b
      | _ \<Rightarrow> False)"

definition py_class :: "string \<Rightarrow> string" where
  "py_class n = ''<class '' @ [CHR 0x27] @ n @ [CHR 0x27] @ ''>''"

fun type_str :: "pyobj \<Rightarrow> string" where
  "type_str PNone = py_class ''NoneType''"
| "type_str (PBool _) = py_class ''bool''"
| "type_str (PInt _) = py_class ''int''"
| "type_str (PFloat _) = py_class ''float''"
| "type_str (PStr _) = py_class ''str''"
| "type_str (PList _) = py_class ''list''"
| "type_str (PDict _) = py_class ''dict''"
| "type_str (TopoDS_Shape _) = py_class ''OCP.TopoDS.TopoDS_Shape''"
| "type_str (TopLoc_Location _) = py_class ''OCP.TopLoc.TopLoc_Location''"
| "type_str (EnumMember _) = py_class ''enum.Enum''"
| "type_str (NativeObject t _) = t"
| "type_str (Object t) = t"

subsection \<open>Dictionaries\<close>

definition dict_get :: "(string \<times> pyobj) list \<Rightarrow> string \<Rightarrow> pyobj option" where
  "dict_get d k = map_of d k"

fun dict_set :: "string \<Rightarrow> pyobj \<Rightarrow> (string \<times> pyobj) list \<Rightarrow> (string \<times> pyobj) list" where
  "dict_set k v [] = [(k, v)]"
| "dict_set k v ((k', v') # d) = (if k = k' then (k, v) # d else (k', v') # dict_set k v d)"

definition dict_keys :: "(string \<times> pyobj) list \<Rightarrow> string list" where
  "dict_keys d = map fst d"

subsection \<open>Text and integers\<close>

text \<open>
  The blanks \<^verbatim>\<open>int\<close> skips around a literal: the ASCII blanks 9 to 13 and 32 and, of the
  code points from 128 on, the two Unicode blanks 133 and 160. The separators 28 to 31
  are not among them.
\<close>

definition is_space :: "char \<Rightarrow> bool" where
  "is_space c =
     (let n = (of_char c :: nat) in n = 32 \<or> (9 \<le> n \<and> n \<le> 13) \<or> n = 133 \<or> n = 160)"

definition is_digit :: "char \<Rightarrow> bool" where
  "is_digit c = (let n = (of_char c :: nat) in 48 \<le> n \<and> n \<le> 57)"

definition digit_value :: "char \<Rightarrow> nat" where
  "digit_value c = (of_char c :: nat) - 48"

definition strip :: "string \<Rightarrow> string" where
  "strip s = rev (dropWhile is_space (rev (dropWhile is_space s)))"

text \<open>
  The digits of a decimal literal: single underscores may stand between digits. The flag
  tells whether the last character read was a digit.
\<close>

fun parse_digits :: "nat \<Rightarrow> bool \<Rightarrow> string \<Rightarrow> nat option" where
  "parse_digits acc d [] = (if d then Some acc else None)"
| "parse_digits acc d (c # cs) =
     (if is_digit c then parse_digits (10 * acc + digit_value c) True cs
      else if c = CHR ''_'' \<and> d then parse_digits acc False cs
      else None)"

text \<open>
  Python's \<^verbatim>\<open>int(s)\<close> on text, base 10: blanks, a sign, the digits, blanks. A literal
  of more than 4300 digits is refused (the interpreter's default limit on the conversion).
\<close>

definition py_int :: "string \<Rightarrow> exn + int" where
  "py_int s =
     (let t = strip s;
          neg = (t \<noteq> [] \<and> hd t = CHR ''-'');
          ds = (if t \<noteq> [] \<and> (hd t = CHR ''-'' \<or> hd t = CHR ''+'') then tl t else t)
      in case parse_digits 0 False ds of
           None \<Rightarrow> Inl (ValueError s)
         | Some n \<Rightarrow>
             if length (filter is_digit ds) > 4300 then Inl (ValueError s)
             else Inr (if neg then - int n else int n))"

function str_nat :: "nat \<Rightarrow> string" where
  "str_nat n =
     (if n < 10 then [char_of (48 + n)]
      else str_nat (n div 10) @ [char_of (48 + n mod 10)])"
  by pat_completeness auto
termination
  by (relation "measure (\<lambda>n. n)") auto

text \<open>Python's \<^verbatim>\<open>str(i)\<close> on an integer.\<close>

definition py_str :: "int \<Rightarrow> string" where
  "py_str i = (if i < 0 then CHR ''-'' # str_nat (nat (- i)) else str_nat (nat i))"

text \<open>\<^verbatim>\<open>sep.join(xs)\<close>.\<close>

fun join :: "string \<Rightarrow> string list \<Rightarrow> string" where
  "join sep [] = []"
| "join sep [x] = x"
| "join sep (x # y # xs) = x @ sep @ join sep (y # xs)"

section \<open>The message codec\<close>

datatype MessageType = DATA | COMMAND | UPDATES | LISTEN | BACKEND | BACKEND_RESPONSE | CONFIG

fun message_value :: "MessageType \<Rightarrow> int" where
  "message_value DATA = 1"
| "message_value COMMAND = 2"
| "message_value UPDATES = 3"
| "message_value LISTEN = 4"
| "message_value BACKEND = 5"
| "message_value BACKEND_RESPONSE = 6"
| "message_value CONFIG = 7"

text \<open>\<^verbatim>\<open>default(obj)\<close>, the serializer hook handed to \<^verbatim>\<open>orjson.dumps\<close>.\<close>

fun default :: "pyobj \<Rightarrow> exn + pyobj" where
  "default (TopoDS_Shape b64) = Inr (PStr b64)"
| "default (TopLoc_Location tq) = Inr tq"
| "default (EnumMember v) = Inr v"
| "default obj =
     Inl (TypeError (''Object of type '' @ type_str obj @ '' is not JSON serializable''))"

text \<open>
  How \<^verbatim>\<open>orjson.dumps(data, default=default)\<close> uses the hook: it walks the payload,
  writes the values of the JSON types and the objects of the types it knows by itself,
  calls the hook on every other object and goes on with the value the hook returns; an
  exception of the hook ends the encoding with the library's encode error, a subclass of
  \<open>TypeError\<close>, kept here as the hook's own exception. (The library encodes an enum
  member by its value without the hook; the hook gives the same value.) \<open>resolve\<close>
  returns the payload with every object replaced by the value written for it.
\<close>

text \<open>
  The objects for which \<open>resolve\<close> asks the hook are not native; the distinction serves
  the termination of \<open>resolve\<close>.
\<close>

fun is_native :: "pyobj \<Rightarrow> bool" where
  "is_native (TopoDS_Shape _) = False"
| "is_native (TopLoc_Location _) = False"
| "is_native (EnumMember _) = False"
| "is_native (Object _) = False"
| "is_native _ = True"

function (sequential) resolve :: "pyobj \<Rightarrow> exn + pyobj"
  and resolve_list :: "pyobj list \<Rightarrow> exn + pyobj list"
  and resolve_items :: "(string \<times> pyobj) list \<Rightarrow> exn + (string \<times> pyobj) list"
where
  "resolve (PList xs) =
     (case resolve_list xs of Inl e \<Rightarrow> Inl e | Inr ys \<Rightarrow> Inr (PList ys))"
| "resolve (PDict kvs) =
     (case resolve_items kvs of Inl e \<Rightarrow> Inl e | Inr d \<Rightarrow> Inr (PDict d))"
| "resolve (TopoDS_Shape b) =
     (case default (TopoDS_Shape b) of Inl e \<Rightarrow> Inl e | Inr v \<Rightarrow> resolve v)"
| "resolve (TopLoc_Location tq) =
     (case default (TopLoc_Location tq) of Inl e \<Rightarrow> Inl e | Inr v \<Rightarrow> resolve v)"
| "resolve (EnumMember x) =
     (case default (EnumMember x) of Inl e \<Rightarrow> Inl e | Inr v \<Rightarrow> resolve v)"
| "resolve (NativeObject t v) = resolve v"
| "resolve (Object t) =
     (case default (Object t) of Inl e \<Rightarrow> Inl e | Inr v \<Rightarrow> resolve v)"
| "resolve v = Inr v"
| "resolve_list [] = Inr []"
| "resolve_list (x # xs) =
     (case resolve x of
        Inl e \<Rightarrow> Inl e
      | Inr y \<Rightarrow> (case resolve_list xs of Inl e \<Rightarrow> Inl e | Inr ys \<Rightarrow> Inr (y # ys)))"
| "resolve_items [] = Inr []"
| "resolve_items ((k, x) # kvs) =
     (case resolve x of
        Inl e \<Rightarrow> Inl e
      | Inr y \<Rightarrow> (case resolve_items kvs of Inl e \<Rightarrow> Inl e | Inr d \<Rightarrow> Inr ((k, y) # d)))"
  by pat_completeness auto
termination
  by (relation "measure (\<lambda>a. case a of
         Inl v \<Rightarrow> 2 * size v + (if is_native v then 0 else 1)
       | Inr (Inl xs) \<Rightarrow> 2 * size_list size xs + 1
       | Inr (Inr kvs) \<Rightarrow> 2 * size_list (size_prod (\<lambda>k. 0) size) kvs + 1)")
     auto

section \<open>The process and its surroundings\<close>

text \<open>
  One entry of the State Store: the metadata kept for a port. A workspace root is the text
  of its path, as the store holds it.
\<close>

record entry =
  roots :: "string list option"
  connection_file :: "string option"

text \<open>
  The port held in \<^verbatim>\<open>CMD_PORT\<close> is an integer (the initial 3939, the environment
  override, a port matched by its workspace root) or the text of a State Store key (the
  single alive port).
\<close>

datatype portval = IntPort int | StrPort string

fun port_text :: "portval \<Rightarrow> string" where
  "port_text (IntPort n) = py_str n"
| "port_text (StrPort s) = s"

text \<open>
  What happened on the websocket and at the callback, oldest first: a connection opened to
  a URL (with the \<^verbatim>\<open>max_size\<close> given, if any), a frame sent, a frame received, the
  connection closed, the callback invoked. The probes of \<^verbatim>\<open>port_check\<close> are no events.
\<close>

datatype event =
    Connect string "nat option"
  | Send bytes
  | Recv bytes
  | Close
  | Callback pyobj MessageType

text \<open>The module globals, the State Store file and the events so far.\<close>

record world =
  CMD_PORT :: portval
  INIT_DONE :: bool
  state_store :: "(string \<times> entry) list"
  trace :: "event list"

text \<open>
  What the process finds around it and does not change: which local ports have a listener,
  the current directory (\<open>cwd\<close> is \<^verbatim>\<open>Path.cwd()\<close>: the text of the directory, or the
  error of the operating system when it is gone), the path library of the platform
  (\<open>is_relative_to env p r\<close> is \<^verbatim>\<open>Path(p).is_relative_to(Path(r))\<close>), the variable
  \<^verbatim>\<open>OCP_PORT\<close>, the Jupyter kernel (its connection file and iopub port) if the session
  runs in one, the JSON libraries (\<open>render\<close> is the compact JSON text \<^verbatim>\<open>orjson\<close> writes
  for a payload of native values, \<open>json_loads\<close> is \<^verbatim>\<open>json.loads\<close>), and how the viewer
  answers on the websocket.
\<close>

record env =
  listening :: "int \<Rightarrow> bool"
  cwd :: "exn + string"
  is_relative_to :: "string \<Rightarrow> string \<Rightarrow> bool"
  OCP_PORT :: "string option"
  kernel :: "(string \<times> int) option"
  render :: "pyobj \<Rightarrow> exn + bytes"
  json_loads :: "bytes \<Rightarrow> exn + pyobj"
  ws_connect :: "string \<Rightarrow> exn option"
  ws_send :: "bytes \<Rightarrow> exn option"
  ws_recv :: "bytes \<Rightarrow> exn + bytes"
  ws_close :: "exn option"

definition CMD_URL :: string where
  "CMD_URL = ''ws://127.0.0.1''"

definition initial_world :: "(string \<times> entry) list \<Rightarrow> world" where
  "initial_world st = \<lparr>CMD_PORT = IntPort 3939, INIT_DONE = False, state_store = st, trace = []\<rparr>"

definition emit :: "event \<Rightarrow> world \<Rightarrow> world" where
  "emit ev w = w\<lparr>trace := trace w @ [ev]\<rparr>"

text \<open>\<^verbatim>\<open>port_check(port)\<close>: a TCP connect probe; the socket refuses a port outside 0..65535.\<close>

definition port_check :: "env \<Rightarrow> int \<Rightarrow> exn + bool" where
  "port_check env port =
     (if 0 \<le> port \<and> port \<le> 65535 then Inr (listening env port)
      else Inl (OverflowError (py_str port)))"

text \<open>
  Modelled from the spec: \<^verbatim>\<open>get_state\<close> and \<^verbatim>\<open>update_state\<close> of the module
  \<^verbatim>\<open>state\<close>, which is not among the sources. The State Store maps a port to its entry;
  \<open>get_state\<close> reads it, \<open>update_state\<close> with no key removes the entry of a port and with
  the key \<^verbatim>\<open>connection_file\<close> records the path in the entry of the port.
\<close>

definition get_state :: "world \<Rightarrow> (string \<times> entry) list" where
  "get_state w = state_store w"

fun set_connection :: "string \<Rightarrow> string \<Rightarrow> (string \<times> entry) list \<Rightarrow> (string \<times> entry) list" where
  "set_connection k cf [] = [(k, \<lparr>roots = None, connection_file = Some cf\<rparr>)]"
| "set_connection k cf ((k', e) # st) =
     (if k = k' then (k', e\<lparr>connection_file := Some cf\<rparr>) # st
      else (k', e) # set_connection k cf st)"

definition update_state :: "portval \<Rightarrow> string option \<Rightarrow> string option \<Rightarrow> world \<Rightarrow> world" where
  "update_state port key val w =
     (case (key, val) of
        (Some k, Some v) \<Rightarrow>
          (if k = ''connection_file''
           then w\<lparr>state_store := set_connection (port_text port) v (state_store w)\<rparr>
           else w)
      | _ \<Rightarrow> w\<lparr>state_store := filter (\<lambda>kv. fst kv \<noteq> port_text port) (state_store w)\<rparr>)"

section \<open>The port resolver\<close>

definition set_port :: "portval \<Rightarrow> world \<Rightarrow> world" where
  "set_port port w = w\<lparr>CMD_PORT := port, INIT_DONE := True\<rparr>"

text \<open>
  The inner loop of \<^verbatim>\<open>find_port\<close>: the roots of one alive entry, left to right; a root
  the current directory lies under sets the port and ends this loop.
\<close>

fun roots_loop :: "env \<Rightarrow> string \<Rightarrow> int \<Rightarrow> portval option \<Rightarrow> string list \<Rightarrow> portval option" where
  "roots_loop env current_path p port [] = port"
| "roots_loop env current_path p port (rt # rs) =
     (if is_relative_to env current_path rt then Some (IntPort p)
      else roots_loop env current_path p port rs)"

text \<open>
  The outer loop of \<^verbatim>\<open>find_port\<close> over the items read from the State Store: an entry
  whose port has no listener is removed from the store and skipped.
\<close>

fun states_loop :: "env \<Rightarrow> string \<Rightarrow> (string \<times> entry) list \<Rightarrow> portval option \<Rightarrow> world
    \<Rightarrow> (exn + portval option) \<times> world" where
  "states_loop env current_path [] port w = (Inr port, w)"
| "states_loop env current_path ((p, state) # rest) port w =
     (case py_int p of
        Inl e \<Rightarrow> (Inl e, w)
      | Inr n \<Rightarrow>
          (case port_check env n of
             Inl e \<Rightarrow> (Inl e, w)
           | Inr alive \<Rightarrow>
               if \<not> alive
               then states_loop env current_path rest port (update_state (IntPort n) None None w)
               else states_loop env current_path rest
                      (roots_loop env current_path n port
                         (case roots state of None \<Rightarrow> [] | Some rs \<Rightarrow> rs))
                      w))"

text \<open>The list comprehension \<^verbatim>\<open>[port for port, _ in states if port_check(int(port))]\<close>.\<close>

fun alive_ports :: "env \<Rightarrow> (string \<times> entry) list \<Rightarrow> exn + string list" where
  "alive_ports env [] = Inr []"
| "alive_ports env ((p, state) # rest) =
     (case py_int p of
        Inl e \<Rightarrow> Inl e
      | Inr n \<Rightarrow>
          (case port_check env n of
             Inl e \<Rightarrow> Inl e
           | Inr alive \<Rightarrow>
               (case alive_ports env rest of
                  Inl e \<Rightarrow> Inl e
                | Inr ps \<Rightarrow> Inr (if alive then p # ps else ps))))"

definition multiple_ports_message :: "string list \<Rightarrow> string" where
  "multiple_ports_message ports =
     [CHR 0x0A] @ ''Multiple ports found ('' @ join '', '' ports
       @ '') and the file is outside of any'' @ [CHR 0x0A]
       @ ''workspace folder of this VS Code instance:'' @ [CHR 0x0A]
       @ ''The right viewer cannot be auto detected, use set_port(port) in your code.''"

definition no_port_message :: string where
  "no_port_message =
     ''No port found via config file'' @ [CHR 0x0A]
       @ ''To change the port, use set_port(port) in your code''"

definition find_port :: "env \<Rightarrow> world \<Rightarrow> (exn + portval) \<times> world" where
  "find_port env w =
     (case cwd env of
        Inl e \<Rightarrow> (Inl e, w)
      | Inr current_path \<Rightarrow>
          (let states = get_state w in
           case states_loop env current_path states None w of
             (Inl e, w') \<Rightarrow> (Inl e, w')
           | (Inr (Some port), w') \<Rightarrow> (Inr port, w')
           | (Inr None, w') \<Rightarrow>
               (case alive_ports env states of
                  Inl e \<Rightarrow> (Inl e, w')
                | Inr ports \<Rightarrow>
                    if length ports = 1 then (Inr (StrPort (ports ! 0)), w')
                    else if length ports > 1
                    then (Inl (RuntimeError (multiple_ports_message ports)), w')
                    else (Inl (RuntimeError no_port_message), w'))))"

definition find_and_set_port :: "env \<Rightarrow> world \<Rightarrow> (exn + unit) \<times> world" where
  "find_and_set_port env w =
     (case py_int (case OCP_PORT env of None \<Rightarrow> ''0'' | Some s \<Rightarrow> s) of
        Inl e \<Rightarrow> (Inl e, w)
      | Inr port \<Rightarrow>
          if port > 0 then (Inr (), set_port (IntPort port) w)
          else (case find_port env w of
                  (Inl e, w') \<Rightarrow> (Inl e, w')
                | (Inr found, w') \<Rightarrow> (Inr (), set_port found w')))"

text \<open>
  \<^verbatim>\<open>set_connection_file()\<close>: inside a Jupyter kernel whose iopub port answers, the path
  of the kernel's connection file is written to the State Store under the current port.
\<close>

definition set_connection_file :: "env \<Rightarrow> world \<Rightarrow> (exn + unit) \<times> world" where
  "set_connection_file env w =
     (case kernel env of
        None \<Rightarrow> (Inr (), w)
      | Some (cf, iopub_port) \<Rightarrow>
          (case port_check env iopub_port of
             Inl e \<Rightarrow> (Inl e, w)
           | Inr alive \<Rightarrow>
               if alive then (Inr (), update_state (CMD_PORT w) (Some ''connection_file'') (Some cf) w)
               else (Inr (), w)))"

text \<open>
  The two statements under \<^verbatim>\<open>if not INIT_DONE:\<close>, which \<^verbatim>\<open>get_port\<close> and \<^verbatim>\<open>_send\<close>
  both have.
\<close>

definition discover :: "env \<Rightarrow> world \<Rightarrow> (exn + unit) \<times> world" where
  "discover env w =
     (case find_and_set_port env w of
        (Inl e, w') \<Rightarrow> (Inl e, w')
      | (Inr u, w') \<Rightarrow> set_connection_file env w')"

definition get_port :: "env \<Rightarrow> world \<Rightarrow> (exn + portval) \<times> world" where
  "get_port env w =
     (if \<not> INIT_DONE w
      then (case discover env w of
              (Inl e, w') \<Rightarrow> (Inl e, w')
            | (Inr u, w') \<Rightarrow> (Inr (CMD_PORT w'), w'))
      else (Inr (CMD_PORT w), w))"

section \<open>The transport client\<close>

text \<open>The encoder writes integers of 64 bits, signed or unsigned, and refuses the others.\<close>

fun int64_ok :: "pyobj \<Rightarrow> bool" where
  "int64_ok (PInt i) = (- (2 ^ 63) \<le> i \<and> i < 2 ^ 64)"
| "int64_ok (PList xs) = list_all int64_ok xs"
| "int64_ok (PDict kvs) = list_all (\<lambda>kv. int64_ok (snd kv)) kvs"
| "int64_ok v = True"

text \<open>\<^verbatim>\<open>orjson.dumps(data, default=default)\<close>.\<close>

definition orjson_dumps :: "env \<Rightarrow> pyobj \<Rightarrow> exn + bytes" where
  "orjson_dumps env data =
     (case resolve data of
        Inl e \<Rightarrow> Inl e
      | Inr v \<Rightarrow>
          if int64_ok v then render env v
          else Inl (TypeError ''Integer exceeds 64-bit range''))"

text \<open>The chain of \<^verbatim>\<open>if\<close> and \<^verbatim>\<open>elif\<close> that puts the kind tag before the JSON bytes.\<close>

definition add_prefix :: "MessageType \<Rightarrow> bytes \<Rightarrow> bytes" where
  "add_prefix message_type j =
     (if message_type = COMMAND then ''C:'' @ j
      else if message_type = DATA then ''D:'' @ j
      else if message_type = LISTEN then ''L:'' @ j
      else if message_type = BACKEND then ''B:'' @ j
      else if message_type = BACKEND_RESPONSE then ''R:'' @ j
      else if message_type = CONFIG then ''S:'' @ j
      else j)"

text \<open>The first \<^verbatim>\<open>with\<close> block of \<^verbatim>\<open>_send\<close>: the frame for a payload and a kind.\<close>

definition encode :: "env \<Rightarrow> pyobj \<Rightarrow> MessageType \<Rightarrow> exn + bytes" where
  "encode env data message_type =
     (case orjson_dumps env data of
        Inl e \<Rightarrow> Inl e
      | Inr j \<Rightarrow> Inr (add_prefix message_type j))"

definition url_of :: "portval \<Rightarrow> string" where
  "url_of port = CMD_URL @ '':'' @ port_text port"

text \<open>
  The \<^verbatim>\<open>try\<close> block of \<^verbatim>\<open>_send\<close> with its handler: every exception raised in it ends
  in \<^verbatim>\<open>return None\<close>. The reply of a command is \<open>PNone\<close> when receiving or parsing it
  fails; a failure to close is passed over. The \<^verbatim>\<open>Timer\<close> blocks only report
  durations and are left out, with the parameter \<^verbatim>\<open>timeit\<close>.
\<close>

definition send_body :: "env \<Rightarrow> pyobj \<Rightarrow> MessageType \<Rightarrow> portval \<Rightarrow> world \<Rightarrow> pyobj \<times> world" where
  "send_body env data message_type port w =
     (case encode env data message_type of
        Inl ex \<Rightarrow> (PNone, w)
      | Inr j \<Rightarrow>
          (case ws_connect env (url_of port) of
             Some ex \<Rightarrow> (PNone, w)
           | None \<Rightarrow>
               (let w1 = emit (Connect (url_of port) None) w in
                case ws_send env j of
                  Some ex \<Rightarrow> (PNone, w1)
                | None \<Rightarrow>
                    (let w2 = emit (Send j) w1;
                         (result, w3) =
                           (if message_type = COMMAND
                            then (case ws_recv env j of
                                    Inl ex \<Rightarrow> (PNone, w2)
                                  | Inr m \<Rightarrow>
                                      (case json_loads env m of
                                         Inl ex \<Rightarrow> (PNone, emit (Recv m) w2)
                                       | Inr r \<Rightarrow> (r, emit (Recv m) w2)))
                            else (PNone, w2));
                         w4 = (case ws_close env of Some ex \<Rightarrow> w3 | None \<Rightarrow> emit Close w3)
                     in (result, w4)))))"

text \<open>
  \<^verbatim>\<open>_send(data, message_type, port)\<close>. The port is resolved before the \<^verbatim>\<open>try\<close> block,
  so an exception of the resolver is the only one that leaves the function.
\<close>

definition private_send :: "env \<Rightarrow> pyobj \<Rightarrow> MessageType \<Rightarrow> portval option \<Rightarrow> world
    \<Rightarrow> (exn + pyobj) \<times> world" where
  "private_send env data message_type port w =
     (case port of
        Some p \<Rightarrow> (case send_body env data message_type p w of (r, w') \<Rightarrow> (Inr r, w'))
      | None \<Rightarrow>
          (case (if \<not> INIT_DONE w then discover env w else (Inr (), w)) of
             (Inl e, w') \<Rightarrow> (Inl e, w')
           | (Inr u, w') \<Rightarrow>
               (case send_body env data message_type (CMD_PORT w') w' of
                  (r, w'') \<Rightarrow> (Inr r, w''))))"

definition send_data :: "env \<Rightarrow> pyobj \<Rightarrow> portval option \<Rightarrow> world \<Rightarrow> (exn + pyobj) \<times> world" where
  "send_data env data port w = private_send env data DATA port w"

definition send_config :: "env \<Rightarrow> pyobj \<Rightarrow> portval option \<Rightarrow> world \<Rightarrow> (exn + pyobj) \<times> world" where
  "send_config env config port w = private_send env config CONFIG port w"

definition send_command :: "env \<Rightarrow> pyobj \<Rightarrow> portval option \<Rightarrow> world \<Rightarrow> (exn + pyobj) \<times> world" where
  "send_command env data port w = private_send env data COMMAND port w"

definition send_backend :: "env \<Rightarrow> pyobj \<Rightarrow> portval option \<Rightarrow> world \<Rightarrow> (exn + pyobj) \<times> world" where
  "send_backend env data port w = private_send env data BACKEND port w"

definition send_response :: "env \<Rightarrow> pyobj \<Rightarrow> portval option \<Rightarrow> world \<Rightarrow> (exn + pyobj) \<times> world" where
  "send_response env data port w = private_send env data BACKEND_RESPONSE port w"

section \<open>The listener\<close>

text \<open>
  The callback is the caller's: it returns or raises, and each invocation is recorded in
  the trace.
\<close>

type_synonym callback = "pyobj \<Rightarrow> MessageType \<Rightarrow> exn option"

text \<open>The \<^verbatim>\<open>for k, v in changes.items()\<close> loop that collects the changed keys.\<close>

fun changes_loop :: "(string \<times> pyobj) list \<Rightarrow> (string \<times> pyobj) list \<Rightarrow> (string \<times> pyobj) list
    \<Rightarrow> (string \<times> pyobj) list" where
  "changes_loop last_config [] new_changes = new_changes"
| "changes_loop last_config ((k, v) # items) new_changes =
     (if (case dict_get last_config k of None \<Rightarrow> False | Some old \<Rightarrow> py_eq old v)
      then changes_loop last_config items new_changes
      else changes_loop last_config items (dict_set k v new_changes))"

text \<open>
  The second \<^verbatim>\<open>if\<close> of the loop body, for a message that is a dictionary: the status
  update. It returns the exception that ended it, if any, the snapshot to keep and the
  world.
\<close>

definition status_part :: "callback \<Rightarrow> (string \<times> pyobj) list \<Rightarrow> (string \<times> pyobj) list \<Rightarrow> world
    \<Rightarrow> exn option \<times> (string \<times> pyobj) list \<times> world" where
  "status_part cb last_config message w =
     (if py_eq (case dict_get message ''command'' of None \<Rightarrow> PNone | Some c \<Rightarrow> c) (PStr ''status'')
      then (case dict_get message ''text'' of
              None \<Rightarrow> (Some (KeyError ''text''), last_config, w)
            | Some (PDict changes) \<Rightarrow>
                (let new_changes = changes_loop last_config changes [];
                     w1 = emit (Callback (PDict new_changes) UPDATES) w
                 in (cb (PDict new_changes) UPDATES, changes, w1))
            | Some other \<Rightarrow> (Some (AttributeError ''items''), last_config, w))
      else (None, last_config, w))"

text \<open>
  The body of the \<^verbatim>\<open>try\<close> in the loop of \<^verbatim>\<open>_listen\<close> for one received frame: parse
  it, hand a model to the callback, then treat a status update.
\<close>

definition handle_message :: "env \<Rightarrow> callback \<Rightarrow> (string \<times> pyobj) list \<Rightarrow> bytes \<Rightarrow> world
    \<Rightarrow> exn option \<times> (string \<times> pyobj) list \<times> world" where
  "handle_message env cb last_config frame w =
     (case json_loads env frame of
        Inl ex \<Rightarrow> (Some ex, last_config, w)
      | Inr (PDict message) \<Rightarrow>
          (if ''model'' \<in> set (dict_keys message)
           then (case dict_get message ''model'' of
                   None \<Rightarrow> (Some (KeyError ''model''), last_config, w)
                 | Some model \<Rightarrow>
                     (let w1 = emit (Callback model DATA) w in
                      case cb model DATA of
                        Some ex \<Rightarrow> (Some ex, last_config, w1)
                      | None \<Rightarrow> status_part cb last_config message w1))
           else status_part cb last_config message w)
      | Inr other \<Rightarrow> (Some (AttributeError ''keys''), last_config, w))"

text \<open>
  The \<^verbatim>\<open>while True\<close> loop over the frames the viewer sends, in order; \<open>None\<close> is a
  receive that returns nothing. When the frames are used up the connection is closed and
  the receive raises. Any exception ends the loop.
\<close>

fun listen_loop :: "env \<Rightarrow> callback \<Rightarrow> (string \<times> pyobj) list \<Rightarrow> bytes option list \<Rightarrow> world
    \<Rightarrow> (string \<times> pyobj) list \<times> world" where
  "listen_loop env cb last_config [] w = (last_config, w)"
| "listen_loop env cb last_config (None # inbound) w = listen_loop env cb last_config inbound w"
| "listen_loop env cb last_config (Some frame # inbound) w =
     (case handle_message env cb last_config frame (emit (Recv frame) w) of
        (Some ex, last_config', w') \<Rightarrow> (last_config', w')
      | (None, last_config', w') \<Rightarrow> listen_loop env cb last_config' inbound w')"

text \<open>
  \<^verbatim>\<open>listener(callback)()\<close>, the function \<^verbatim>\<open>_listen\<close>: connect to the port in
  \<^verbatim>\<open>CMD_PORT\<close> with \<^verbatim>\<open>max_size=2**28\<close>, register, run the loop, and close on leaving
  the \<^verbatim>\<open>with\<close> block.
\<close>

definition private_listen :: "env \<Rightarrow> callback \<Rightarrow> bytes option list \<Rightarrow> world \<Rightarrow> (exn + unit) \<times> world" where
  "private_listen env cb inbound w =
     (case ws_connect env (url_of (CMD_PORT w)) of
        Some ex \<Rightarrow> (Inl ex, w)
      | None \<Rightarrow>
          (let w1 = emit (Connect (url_of (CMD_PORT w)) (Some (2 ^ 28))) w in
           case ws_send env ''L:register'' of
             Some ex \<Rightarrow> (Inl ex, (case ws_close env of Some ex' \<Rightarrow> w1 | None \<Rightarrow> emit Close w1))
           | None \<Rightarrow>
               (case listen_loop env cb [] inbound (emit (Send ''L:register'') w1) of
                  (last_config, w2) \<Rightarrow>
                    (case ws_close env of
                       Some ex \<Rightarrow> (Inl ex, w2)
                     | None \<Rightarrow> (Inr (), emit Close w2)))))"

definition listener :: "env \<Rightarrow> callback \<Rightarrow> bytes option list \<Rightarrow> world \<Rightarrow> (exn + unit) \<times> world" where
  "listener env cb = private_listen env cb"

section \<open>Notions the properties are stated with\<close>

text \<open>
  A payload holds an object that the encoder passes to the serializer hook and that the
  hook does not recognize: an \<open>Object\<close> at a place the encoder reaches. An object the
  encoder writes by itself counts by the value written for it.
\<close>

fun has_unrecognized :: "pyobj \<Rightarrow> bool" where
  "has_unrecognized (Object t) = True"
| "has_unrecognized (PList xs) = list_ex has_unrecognized xs"
| "has_unrecognized (PDict kvs) = list_ex (\<lambda>kv. has_unrecognized (snd kv)) kvs"
| "has_unrecognized (TopLoc_Location tq) = has_unrecognized tq"
| "has_unrecognized (EnumMember v) = has_unrecognized v"
| "has_unrecognized (NativeObject t v) = has_unrecognized v"
| "has_unrecognized v = False"

text \<open>
  Surroundings to run the functions in: viewers listen on the ports 3939 and 3940, the
  websocket of 3939 accepts every frame and answers \<^verbatim>\<open>{}\<close>, and the JSON libraries are
  given on the one text the examples exchange. The platform is POSIX and the current
  directory is \<^verbatim>\<open>/home/cad/part\<close>; the path library is given on that directory and on
  the roots the example stores hold.
\<close>

definition example_env :: env where
  "example_env =
     \<lparr>listening = (\<lambda>p. p = 3939 \<or> p = 3940),
      cwd = Inr ''/home/cad/part'',
      is_relative_to = (\<lambda>p r. p = ''/home/cad/part''
         \<and> (r = ''/'' \<or> r = ''/home'' \<or> r = ''/home/cad'' \<or> r = ''/home/cad/part'')),
      OCP_PORT = None,
      kernel = None,
      render = (\<lambda>v. if v = PDict [] then Inr ''{}'' else Inl (TypeError ''render'')),
      json_loads = (\<lambda>b. if b = ''{}'' then Inr (PDict []) else Inl (ValueError b)),
      ws_connect = (\<lambda>u. if u = ''ws://127.0.0.1:3939'' then None else Some (OSError u)),
      ws_send = (\<lambda>b. None),
      ws_recv = (\<lambda>b. Inr ''{}''),
      ws_close = None\<rparr>"

text \<open>
  The statements of \<^verbatim>\<open>_send\<close> before its \<^verbatim>\<open>try\<close> block: the port a send goes to. It is
  the one given; with none given it is the one in \<^verbatim>\<open>CMD_PORT\<close>, after the discovery that
  runs when the process has not set a port yet and that may raise.
\<close>

definition send_port :: "env \<Rightarrow> portval option \<Rightarrow> world \<Rightarrow> (exn + portval) \<times> world" where
  "send_port env port w =
     (case port of
        Some p \<Rightarrow> (Inr p, w)
      | None \<Rightarrow>
          (case (if \<not> INIT_DONE w then discover env w else (Inr (), w)) of
             (Inl e, w') \<Rightarrow> (Inl e, w')
           | (Inr u, w') \<Rightarrow> (Inr (CMD_PORT w'), w')))"


text \<open>
  A key of the State Store is the text of a port number; \<open>key_port\<close> is the number.
\<close>

definition valid_key :: "string \<Rightarrow> bool" where
  "valid_key p = (case py_int p of Inl e \<Rightarrow> False | Inr n \<Rightarrow> 0 \<le> n \<and> n \<le> 65535)"

definition key_port :: "string \<Rightarrow> int" where
  "key_port p = (case py_int p of Inl e \<Rightarrow> 0 | Inr n \<Rightarrow> n)"

text \<open>A port is alive when a listener answers the probe.\<close>

definition alive :: "env \<Rightarrow> string \<Rightarrow> bool" where
  "alive env p = listening env (key_port p)"

text \<open>
  The current directory lies under one of the workspace roots of an entry, as the path
  library of the platform decides.
\<close>

definition root_match :: "env \<Rightarrow> entry \<Rightarrow> bool" where
  "root_match env st =
     (case cwd env of
        Inl e \<Rightarrow> False
      | Inr current_path \<Rightarrow>
          list_ex (is_relative_to env current_path)
            (case roots st of None \<Rightarrow> [] | Some rs \<Rightarrow> rs))"

text \<open>The alive entries with such a root, in store order.\<close>

definition matching :: "env \<Rightarrow> (string \<times> entry) list \<Rightarrow> (string \<times> entry) list" where
  "matching env states = filter (\<lambda>kv. alive env (fst kv) \<and> root_match env (snd kv)) states"

text \<open>The keys of the alive entries, in store order.\<close>

definition alive_keys :: "env \<Rightarrow> (string \<times> entry) list \<Rightarrow> string list" where
  "alive_keys env states = map fst (filter (\<lambda>kv. alive env (fst kv)) states)"

text \<open>The variable \<^verbatim>\<open>OCP_PORT\<close> gives no positive port.\<close>

definition no_override :: "env \<Rightarrow> bool" where
  "no_override env =
     (case py_int (case OCP_PORT env of None \<Rightarrow> ''0'' | Some s \<Rightarrow> s) of
        Inl e \<Rightarrow> False
      | Inr n \<Rightarrow> n \<le> 0)"

text \<open>
  State Stores for the examples: the current directory is \<^verbatim>\<open>/home/cad/part\<close> and
  nothing listens on 3941.
\<close>

definition two_match_store :: "(string \<times> entry) list" where
  "two_match_store =
     [(''3939'', \<lparr>roots = Some [''/home/cad''], connection_file = None\<rparr>),
      (''3941'', \<lparr>roots = Some [''/home/cad''], connection_file = None\<rparr>),
      (''3940'', \<lparr>roots = Some [''/tmp'', ''/home''], connection_file = None\<rparr>)]"

definition one_alive_store :: "(string \<times> entry) list" where
  "one_alive_store =
     [(''3941'', \<lparr>roots = None, connection_file = None\<rparr>),
      (''3940'', \<lparr>roots = Some [''/srv''], connection_file = None\<rparr>)]"

definition two_alive_store :: "(string \<times> entry) list" where
  "two_alive_store =
     [(''3939'', \<lparr>roots = Some [''/srv''], connection_file = None\<rparr>),
      (''3940'', \<lparr>roots = Some [''/home/cad/other''], connection_file = None\<rparr>)]"

definition none_alive_store :: "(string \<times> entry) list" where
  "none_alive_store = [(''3941'', \<lparr>roots = Some [''/home''], connection_file = None\<rparr>)]"

text \<open>
  The delta as the specification words it: the items of the new snapshot whose key is
  absent from the previous snapshot or whose value differs from the previous one.
\<close>

definition spec_delta :: "(string \<times> pyobj) list \<Rightarrow> (string \<times> pyobj) list \<Rightarrow> (string \<times> pyobj) list" where
  "spec_delta previous new =
     filter (\<lambda>kv. case dict_get previous (fst kv) of
                     None \<Rightarrow> True
                   | Some old \<Rightarrow> \<not> py_eq old (snd kv)) new"

text \<open>The events that open a connection.\<close>

fun is_connect :: "event \<Rightarrow> bool" where
  "is_connect (Connect url max_size) = True"
| "is_connect ev = False"

text \<open>Surroundings whose JSON parser returns a given message for the frame received.\<close>

definition status_env :: "pyobj \<Rightarrow> env" where
  "status_env message = example_env\<lparr>json_loads := (\<lambda>b. Inr message)\<rparr>"

text \<open>Inbound messages for the examples.\<close>

definition status_message :: "(string \<times> pyobj) list" where
  "status_message =
     [(''command'', PStr ''status''),
      (''text'', PDict [(''a'', PInt 1), (''b'', PInt 3), (''c'', PInt 4)])]"

definition model_status_message :: "(string \<times> pyobj) list" where
  "model_status_message =
     [(''model'', PDict [(''x'', PInt 1)]),
      (''command'', PStr ''status''),
      (''text'', PDict [(''a'', PInt 1), (''b'', PInt 3), (''c'', PInt 4)])]"

text \<open>Surroundings with one viewer, on port 3940; nothing listens on 3939.\<close>

definition viewer_3940_env :: env where
  "viewer_3940_env =
     example_env\<lparr>listening := (\<lambda>p. p = 3940),
                 ws_connect := (\<lambda>u. if u = ''ws://127.0.0.1:3940'' then None else Some (OSError u))\<rparr>"

section \<open>Properties of the port resolver\<close>

lemma py_int_0: "py_int ''0'' = Inr 0"
  by code_simp

lemma key_3939: "py_int ''3939'' = Inr 3939"
  by code_simp

lemma key_3940: "py_int ''3940'' = Inr 3940"
  by code_simp

lemma key_3941: "py_int ''3941'' = Inr 3941"
  by code_simp

lemma str_3941: "py_str 3941 = ''3941''"
  by code_simp

lemma roots_loop_eq:
  "roots_loop env cur n port rs
     = (if list_ex (is_relative_to env cur) rs then Some (IntPort n) else port)"
  by (induction rs) auto

lemma valid_keyD:
  "valid_key p \<Longrightarrow> py_int p = Inr (key_port p) \<and> port_check env (key_port p) = Inr (alive env p)"
  by (auto simp: valid_key_def key_port_def port_check_def alive_def split: sum.splits)

lemma states_loop_result:
  assumes c: "cwd env = Inr cur"
  shows "list_all (\<lambda>kv. valid_key (fst kv)) states \<Longrightarrow>
   fst (states_loop env cur states port w)
     = Inr (if matching env states = [] then port
            else Some (IntPort (key_port (fst (last (matching env states))))))"
proof (induction states arbitrary: port w)
  case Nil
  then show ?case by (simp add: matching_def)
next
  case (Cons kv states)
  obtain p st where kv: "kv = (p, st)" by (cases kv)
  from Cons.prems kv have v: "valid_key p" and rest: "list_all (\<lambda>kv. valid_key (fst kv)) states"
    by simp_all
  note vd = valid_keyD [OF v, of env]
  show ?case
  proof (cases "alive env p")
    case False
    then show ?thesis
      using Cons.IH [OF rest] vd by (simp add: kv matching_def)
  next
    case True
    then show ?thesis
      using Cons.IH [OF rest] vd
      by (simp add: kv matching_def roots_loop_eq root_match_def c)
  qed
qed

lemma update_state_globals:
  "CMD_PORT (update_state port key val w) = CMD_PORT w
   \<and> INIT_DONE (update_state port key val w) = INIT_DONE w
   \<and> trace (update_state port key val w) = trace w"
  by (simp add: update_state_def split: option.splits)

lemma states_loop_globals:
  "CMD_PORT (snd (states_loop env cur states port w)) = CMD_PORT w
   \<and> INIT_DONE (snd (states_loop env cur states port w)) = INIT_DONE w
   \<and> trace (snd (states_loop env cur states port w)) = trace w"
proof (induction states arbitrary: port w)
  case Nil
  show ?case by simp
next
  case (Cons kv states)
  obtain p st where kv: "kv = (p, st)" by (cases kv)
  show ?case
    by (simp add: kv Cons.IH update_state_globals split: sum.splits)
qed

lemma alive_ports_eq:
  "list_all (\<lambda>kv. valid_key (fst kv)) states \<Longrightarrow>
   alive_ports env states = Inr (alive_keys env states)"
proof (induction states)
  case Nil
  show ?case by (simp add: alive_keys_def)
next
  case (Cons kv states)
  obtain p st where kv: "kv = (p, st)" by (cases kv)
  from Cons.prems kv have v: "valid_key p" and rest: "list_all (\<lambda>kv. valid_key (fst kv)) states"
    by simp_all
  show ?case
    using Cons.IH [OF rest] valid_keyD [OF v, of env]
    by (simp add: kv alive_keys_def)
qed

lemma find_port_globals:
  "CMD_PORT (snd (find_port env w)) = CMD_PORT w
   \<and> INIT_DONE (snd (find_port env w)) = INIT_DONE w
   \<and> trace (snd (find_port env w)) = trace w"
proof (cases "cwd env")
  case (Inl e)
  then show ?thesis by (simp add: find_port_def)
next
  case (Inr cur)
  obtain r w' where s: "states_loop env cur (state_store w) None w = (r, w')"
    by (cases "states_loop env cur (state_store w) None w")
  have g: "CMD_PORT w' = CMD_PORT w \<and> INIT_DONE w' = INIT_DONE w \<and> trace w' = trace w"
    using states_loop_globals [of env cur "state_store w" None w] by (simp add: s)
  show ?thesis
    by (simp add: find_port_def Inr get_state_def s g Let_def split: sum.splits option.splits)
qed

lemma find_port_match:
  assumes "cwd env = Inr cur"
    and "list_all (\<lambda>kv. valid_key (fst kv)) (state_store w)"
    and "matching env (state_store w) \<noteq> []"
  shows "fst (find_port env w) = Inr (IntPort (key_port (fst (last (matching env (state_store w))))))"
proof -
  obtain r w' where s: "states_loop env cur (state_store w) None w = (r, w')"
    by (cases "states_loop env cur (state_store w) None w")
  have "r = Inr (Some (IntPort (key_port (fst (last (matching env (state_store w)))))))"
    using states_loop_result [OF assms(1) assms(2), of None w] assms(3) by (simp add: s)
  then show ?thesis
    by (simp add: find_port_def assms(1) get_state_def s Let_def)
qed

lemma find_port_no_match:
  assumes "cwd env = Inr cur"
    and "list_all (\<lambda>kv. valid_key (fst kv)) (state_store w)"
    and "matching env (state_store w) = []"
  shows "fst (find_port env w) =
     (let ports = alive_keys env (state_store w) in
      if length ports = 1 then Inr (StrPort (ports ! 0))
      else if length ports > 1 then Inl (RuntimeError (multiple_ports_message ports))
      else Inl (RuntimeError no_port_message))"
proof -
  obtain r w' where s: "states_loop env cur (state_store w) None w = (r, w')"
    by (cases "states_loop env cur (state_store w) None w")
  have "r = Inr None"
    using states_loop_result [OF assms(1) assms(2), of None w] assms(3) by (simp add: s)
  then show ?thesis
    using alive_ports_eq [OF assms(2), of env]
    by (simp add: find_port_def assms(1) s Let_def get_state_def)
qed

lemma find_and_set_port_no_override:
  "no_override env \<Longrightarrow>
   find_and_set_port env w =
     (case find_port env w of
        (Inl e, w') \<Rightarrow> (Inl e, w')
      | (Inr found, w') \<Rightarrow> (Inr (), set_port found w'))"
  by (auto simp: no_override_def find_and_set_port_def split: sum.splits)

lemma find_and_set_port_trace: "trace (snd (find_and_set_port env w)) = trace w"
proof -
  obtain r w' where f: "find_port env w = (r, w')" by (cases "find_port env w")
  have t: "trace w' = trace w" using find_port_globals [of env w] by (simp add: f)
  show ?thesis
    by (cases r) (simp_all add: find_and_set_port_def f t set_port_def split: sum.splits)
qed

lemma set_connection_file_trace: "trace (snd (set_connection_file env w)) = trace w"
  by (simp add: set_connection_file_def update_state_globals split: option.splits prod.splits sum.splits)

lemma discover_trace: "trace (snd (discover env w)) = trace w"
proof -
  obtain r w' where f: "find_and_set_port env w = (r, w')" by (cases "find_and_set_port env w")
  have t: "trace w' = trace w" using find_and_set_port_trace [of env w] by (simp add: f)
  show ?thesis
    by (cases r) (simp_all add: discover_def f t set_connection_file_trace)
qed

lemma send_port_trace: "trace (snd (send_port env port w)) = trace w"
proof (cases "port = None \<and> \<not> INIT_DONE w")
  case False
  then show ?thesis by (auto simp: send_port_def split: option.splits)
next
  case True
  obtain r w' where f: "discover env w = (r, w')" by (cases "discover env w")
  have t: "trace w' = trace w" using discover_trace [of env w] by (simp add: f)
  show ?thesis
    using True by (cases r) (simp_all add: send_port_def f t)
qed

lemma send_port_error:
  "send_port env port w = (Inl e, w0) \<Longrightarrow>
   port = None \<and> \<not> INIT_DONE w \<and> discover env w = (Inl e, w0)"
  by (auto simp: send_port_def split: option.splits if_splits prod.splits sum.splits)

lemma private_send_via_port:
  "private_send env data message_type port w =
     (case send_port env port w of
        (Inl e, w0) \<Rightarrow> (Inl e, w0)
      | (Inr p, w0) \<Rightarrow>
          (Inr (fst (send_body env data message_type p w0)),
           snd (send_body env data message_type p w0)))"
  by (auto simp: private_send_def send_port_def split: option.splits prod.splits sum.splits)

text \<open>
  C2 (as the code has it). The \<^verbatim>\<open>break\<close> ends only the loop over the roots of one
  entry; the loop over the store goes on to its end, and every later alive entry with a
  matching root overwrites the port. With no environment override the port of the last
  alive entry with a matching root is selected.
\<close>

theorem last_root_match_wins:
  assumes "cwd env = Inr current_path"
    and "list_all (\<lambda>kv. valid_key (fst kv)) (state_store w)"
    and "no_override env"
    and "matching env (state_store w) \<noteq> []"
  shows "fst (find_port env w)
           = Inr (IntPort (key_port (fst (last (matching env (state_store w))))))
     \<and> fst (find_and_set_port env w) = Inr ()
     \<and> CMD_PORT (snd (find_and_set_port env w))
           = IntPort (key_port (fst (last (matching env (state_store w)))))
     \<and> INIT_DONE (snd (find_and_set_port env w))"
proof -
  obtain r w' where f: "find_port env w = (r, w')" by (cases "find_port env w")
  have r: "r = Inr (IntPort (key_port (fst (last (matching env (state_store w))))))"
    using find_port_match [OF assms(1) assms(2) assms(4)] by (simp add: f)
  show ?thesis
    by (simp add: find_and_set_port_no_override [OF assms(3)] f r set_port_def)
qed

lemma example_cwd: "cwd example_env = Inr ''/home/cad/part''"
  by (simp add: example_env_def)

lemma example_no_override: "no_override example_env"
  by (simp add: no_override_def example_env_def py_int_0)

lemma two_match_valid: "list_all (\<lambda>kv. valid_key (fst kv)) two_match_store"
  by (simp add: two_match_store_def valid_key_def key_3939 key_3940 key_3941)

lemma two_match_matching:
  "matching example_env two_match_store = [two_match_store ! 0, two_match_store ! 2]"
  by (simp add: matching_def two_match_store_def alive_def key_port_def key_3939 key_3940 key_3941
      root_match_def example_env_def)

lemma two_match_find_port:
  "find_port example_env (initial_world two_match_store)
     = (Inr (IntPort 3940),
        (initial_world two_match_store)\<lparr>state_store := [two_match_store ! 0, two_match_store ! 2]\<rparr>)"
  by (simp add: find_port_def get_state_def initial_world_def two_match_store_def
      key_3939 key_3940 key_3941 str_3941 port_check_def update_state_def example_env_def)

theorem last_root_match_wins_witness:
  "cwd example_env = Inr ''/home/cad/part''
   \<and> list_all (\<lambda>kv. valid_key (fst kv)) (state_store (initial_world two_match_store))
   \<and> no_override example_env
   \<and> map fst (matching example_env (state_store (initial_world two_match_store)))
       = [''3939'', ''3940'']
   \<and> fst (find_port example_env (initial_world two_match_store)) = Inr (IntPort 3940)
   \<and> CMD_PORT (snd (find_and_set_port example_env (initial_world two_match_store))) = IntPort 3940"
proof -
  let ?w = "initial_world two_match_store"
  have st: "state_store ?w = two_match_store" by (simp add: initial_world_def)
  have h1: "list_all (\<lambda>kv. valid_key (fst kv)) (state_store ?w)"
    by (simp only: st two_match_valid)
  have m: "matching example_env (state_store ?w) = [two_match_store ! 0, two_match_store ! 2]"
    by (simp only: st two_match_matching)
  have h3: "matching example_env (state_store ?w) \<noteq> []"
    by (simp add: m)
  have k: "key_port ''3940'' = 3940"
    by (simp add: key_port_def key_3940)
  have ks: "fst (two_match_store ! 0) = ''3939''" "fst (two_match_store ! 2) = ''3940''"
    by (simp_all add: two_match_store_def)
  show ?thesis
    using last_root_match_wins [OF example_cwd h1 example_no_override h3] h1 example_no_override
      example_cwd
    by (simp add: m k ks)
qed

text \<open>
  C2 as stated fails: with two alive entries whose roots hold the current directory the
  second is selected, and the stale entry between them is still removed, so the first
  match did not end the search.
\<close>

theorem first_root_match_does_not_win:
  "map fst (matching example_env two_match_store) = [''3939'', ''3940'']
   \<and> fst (find_port example_env (initial_world two_match_store)) = Inr (IntPort 3940)
   \<and> fst (find_port example_env (initial_world two_match_store)) \<noteq> Inr (IntPort 3939)
   \<and> map fst (state_store (snd (find_port example_env (initial_world two_match_store))))
       = [''3939'', ''3940'']"
  by (simp add: two_match_find_port two_match_matching) (simp add: two_match_store_def)

text \<open>
  C3. With no environment override and no alive entry with a matching root: one alive
  port is resolved and set, none gives the error that no port was found, several give the
  error that lists them all.
\<close>

theorem resolve_without_root_match:
  assumes "cwd env = Inr current_path"
    and "list_all (\<lambda>kv. valid_key (fst kv)) (state_store w)"
    and "no_override env"
    and "matching env (state_store w) = []"
  shows "(length (alive_keys env (state_store w)) = 1 \<longrightarrow>
            fst (find_and_set_port env w) = Inr ()
            \<and> CMD_PORT (snd (find_and_set_port env w)) = StrPort (hd (alive_keys env (state_store w)))
            \<and> INIT_DONE (snd (find_and_set_port env w)))
     \<and> (alive_keys env (state_store w) = [] \<longrightarrow>
            fst (find_and_set_port env w)
              = Inl (RuntimeError (''No port found via config file'' @ [CHR 0x0A]
                      @ ''To change the port, use set_port(port) in your code'')))
     \<and> (length (alive_keys env (state_store w)) > 1 \<longrightarrow>
            fst (find_and_set_port env w)
              = Inl (RuntimeError ([CHR 0x0A] @ ''Multiple ports found (''
                      @ join '', '' (alive_keys env (state_store w))
                      @ '') and the file is outside of any'' @ [CHR 0x0A]
                      @ ''workspace folder of this VS Code instance:'' @ [CHR 0x0A]
                      @ ''The right viewer cannot be auto detected, use set_port(port) in your code.'')))"
proof -
  let ?A = "alive_keys env (state_store w)"
  obtain r w' where f: "find_port env w = (r, w')" by (cases "find_port env w")
  have r: "r = (if length ?A = 1 then Inr (StrPort (?A ! 0))
      else if length ?A > 1 then Inl (RuntimeError (multiple_ports_message ?A))
      else Inl (RuntimeError no_port_message))"
    using find_port_no_match [OF assms(1) assms(2) assms(4)] by (simp add: f Let_def)
  have fs: "find_and_set_port env w =
     (case r of Inl e \<Rightarrow> (Inl e, w') | Inr found \<Rightarrow> (Inr (), set_port found w'))"
    by (simp add: find_and_set_port_no_override [OF assms(3)] f)
  have one: "length ?A = 1 \<longrightarrow>
            fst (find_and_set_port env w) = Inr ()
            \<and> CMD_PORT (snd (find_and_set_port env w)) = StrPort (hd ?A)
            \<and> INIT_DONE (snd (find_and_set_port env w))"
  proof
    assume l: "length ?A = 1"
    then have "?A ! 0 = hd ?A" by (cases ?A) simp_all
    then show "fst (find_and_set_port env w) = Inr ()
            \<and> CMD_PORT (snd (find_and_set_port env w)) = StrPort (hd ?A)
            \<and> INIT_DONE (snd (find_and_set_port env w))"
      by (simp add: fs r l set_port_def)
  qed
  have zero: "?A = [] \<longrightarrow> fst (find_and_set_port env w) = Inl (RuntimeError no_port_message)"
    by (simp add: fs r)
  have many: "length ?A > 1 \<longrightarrow>
      fst (find_and_set_port env w) = Inl (RuntimeError (multiple_ports_message ?A))"
    by (simp add: fs r)
  show ?thesis
    using one zero many
    unfolding no_port_message_def multiple_ports_message_def by blast
qed

theorem resolve_without_root_match_witness:
  "alive_keys example_env one_alive_store = [''3940'']
   \<and> fst (find_and_set_port example_env (initial_world one_alive_store)) = Inr ()
   \<and> CMD_PORT (snd (find_and_set_port example_env (initial_world one_alive_store))) = StrPort ''3940''
   \<and> alive_keys example_env none_alive_store = []
   \<and> fst (find_and_set_port example_env (initial_world none_alive_store))
       = Inl (RuntimeError (''No port found via config file'' @ [CHR 0x0A]
                      @ ''To change the port, use set_port(port) in your code''))
   \<and> alive_keys example_env two_alive_store = [''3939'', ''3940'']
   \<and> fst (find_and_set_port example_env (initial_world two_alive_store))
       = Inl (RuntimeError ([CHR 0x0A] @ ''Multiple ports found (3939, 3940)''
                      @ '' and the file is outside of any'' @ [CHR 0x0A]
                      @ ''workspace folder of this VS Code instance:'' @ [CHR 0x0A]
                      @ ''The right viewer cannot be auto detected, use set_port(port) in your code.''))"
proof -
  have st: "state_store (initial_world one_alive_store) = one_alive_store"
    "state_store (initial_world none_alive_store) = none_alive_store"
    "state_store (initial_world two_alive_store) = two_alive_store"
    by (simp_all add: initial_world_def)
  have kp: "key_port ''3939'' = 3939" "key_port ''3940'' = 3940" "key_port ''3941'' = 3941"
    by (simp_all add: key_port_def key_3939 key_3940 key_3941)
  have v: "list_all (\<lambda>kv. valid_key (fst kv)) (state_store (initial_world one_alive_store))"
    "list_all (\<lambda>kv. valid_key (fst kv)) (state_store (initial_world none_alive_store))"
    "list_all (\<lambda>kv. valid_key (fst kv)) (state_store (initial_world two_alive_store))"
    by (simp_all add: initial_world_def one_alive_store_def none_alive_store_def two_alive_store_def
        valid_key_def key_3939 key_3940 key_3941)
  have m: "matching example_env (state_store (initial_world one_alive_store)) = []"
    "matching example_env (state_store (initial_world none_alive_store)) = []"
    "matching example_env (state_store (initial_world two_alive_store)) = []"
    by (simp_all add: initial_world_def one_alive_store_def none_alive_store_def two_alive_store_def
        matching_def alive_def kp root_match_def example_env_def)
  have a: "alive_keys example_env one_alive_store = [''3940'']"
    "alive_keys example_env none_alive_store = []"
    "alive_keys example_env two_alive_store = [''3939'', ''3940'']"
    by (simp_all add: one_alive_store_def none_alive_store_def two_alive_store_def
        alive_keys_def alive_def kp example_env_def)
  show ?thesis
    using resolve_without_root_match [OF example_cwd v(1) example_no_override m(1)]
      resolve_without_root_match [OF example_cwd v(2) example_no_override m(2)]
      resolve_without_root_match [OF example_cwd v(3) example_no_override m(3)]
    by (simp add: st a)
qed

lemma one_alive_find_port:
  "find_port viewer_3940_env (initial_world one_alive_store)
     = (Inr (StrPort ''3940''),
        (initial_world one_alive_store)\<lparr>state_store := [one_alive_store ! 1]\<rparr>)"
  by (simp add: find_port_def get_state_def initial_world_def one_alive_store_def
      key_3940 key_3941 str_3941 port_check_def update_state_def
      viewer_3940_env_def example_env_def)

lemma viewer_3940_no_override: "no_override viewer_3940_env"
  by (simp add: no_override_def viewer_3940_env_def example_env_def py_int_0)

lemma one_alive_get_port:
  "get_port viewer_3940_env (initial_world one_alive_store)
     = (Inr (StrPort ''3940''),
        (initial_world one_alive_store)\<lparr>CMD_PORT := StrPort ''3940'', INIT_DONE := True,
            state_store := [one_alive_store ! 1]\<rparr>)"
proof -
  have i: "\<not> INIT_DONE (initial_world one_alive_store)" by (simp add: initial_world_def)
  have k: "kernel viewer_3940_env = None" by (simp add: viewer_3940_env_def example_env_def)
  show ?thesis
    by (simp add: get_port_def i discover_def
        find_and_set_port_no_override [OF viewer_3940_no_override] one_alive_find_port
        set_port_def set_connection_file_def k)
qed

lemma one_alive_discover:
  "discover viewer_3940_env (initial_world one_alive_store)
     = (Inr (), (initial_world one_alive_store)\<lparr>CMD_PORT := StrPort ''3940'', INIT_DONE := True,
            state_store := [one_alive_store ! 1]\<rparr>)"
proof -
  have k: "kernel viewer_3940_env = None" by (simp add: viewer_3940_env_def example_env_def)
  show ?thesis
    by (simp add: discover_def find_and_set_port_no_override [OF viewer_3940_no_override]
        one_alive_find_port set_port_def set_connection_file_def k)
qed

lemma none_alive_find_port:
  "fst (find_port example_env (initial_world none_alive_store)) = Inl (RuntimeError no_port_message)"
  by (simp add: find_port_def get_state_def initial_world_def none_alive_store_def key_3941 str_3941
      port_check_def update_state_def example_env_def)

lemma none_alive_discover:
  "fst (discover example_env (initial_world none_alive_store))
     = Inl (RuntimeError no_port_message)"
proof -
  obtain r w' where f: "find_port example_env (initial_world none_alive_store) = (r, w')"
    by (cases "find_port example_env (initial_world none_alive_store)")
  have r: "r = Inl (RuntimeError no_port_message)"
    using none_alive_find_port by (simp add: f)
  show ?thesis
    by (simp add: discover_def find_and_set_port_no_override [OF example_no_override] f r)
qed

section \<open>Properties of the codec and the transport client\<close>

lemma resolve_unrecognized:
  "has_unrecognized v \<Longrightarrow> \<exists>e. resolve v = Inl e"
  "list_ex has_unrecognized xs \<Longrightarrow> \<exists>e. resolve_list xs = Inl e"
  "list_ex (\<lambda>kv. has_unrecognized (snd kv)) kvs \<Longrightarrow> \<exists>e. resolve_items kvs = Inl e"
proof (induction v and xs and kvs rule: resolve_resolve_list_resolve_items.induct)
qed (auto split: sum.splits)

lemma url_3939: "url_of (IntPort 3939) = ''ws://127.0.0.1:3939''"
  by code_simp

lemma dumps_empty: "orjson_dumps example_env (PDict []) = Inr ''{}''"
  by (simp add: orjson_dumps_def example_env_def)

text \<open>
  C10. A message type outside the six tagged kinds gets no prefix: the frame is the JSON
  bytes of the payload as the encoder wrote them, and that is what is sent on the
  connection.
\<close>

theorem untagged_frame_is_bare_json:
  assumes "message_type \<notin> {COMMAND, DATA, LISTEN, BACKEND, BACKEND_RESPONSE, CONFIG}"
    and "orjson_dumps env data = Inr j"
    and "ws_connect env (url_of port) = None"
    and "ws_send env j = None"
  shows "encode env data message_type = Inr j
     \<and> trace (snd (private_send env data message_type (Some port) w))
         = trace w @ [Connect (url_of port) None, Send j]
             @ (case ws_close env of None \<Rightarrow> [Close] | Some ex \<Rightarrow> [])"
  using assms
  by (auto simp: encode_def add_prefix_def private_send_def send_body_def emit_def Let_def
      split: option.splits)

theorem untagged_frame_is_bare_json_witness:
  "UPDATES \<notin> {COMMAND, DATA, LISTEN, BACKEND, BACKEND_RESPONSE, CONFIG}
   \<and> orjson_dumps example_env (PDict []) = Inr ''{}''
   \<and> ws_connect example_env (url_of (IntPort 3939)) = None
   \<and> ws_send example_env ''{}'' = None
   \<and> encode example_env (PDict []) UPDATES = Inr ''{}''
   \<and> trace (snd (private_send example_env (PDict []) UPDATES (Some (IntPort 3939)) (initial_world [])))
       = [Connect ''ws://127.0.0.1:3939'' None, Send ''{}'', Close]"
proof -
  have h1: "UPDATES \<notin> {COMMAND, DATA, LISTEN, BACKEND, BACKEND_RESPONSE, CONFIG}" by simp
  have h2: "orjson_dumps example_env (PDict []) = Inr ''{}''" by (rule dumps_empty)
  have h3: "ws_connect example_env (url_of (IntPort 3939)) = None"
    by (simp add: url_3939 example_env_def)
  have h4: "ws_send example_env ''{}'' = None" by (simp add: example_env_def)
  have c: "ws_close example_env = None" by (simp add: example_env_def)
  show ?thesis
    using untagged_frame_is_bare_json [OF h1 h2 h3 h4, of "initial_world []"] h1 h2 h3 h4
    by (simp add: url_3939 c initial_world_def)
qed





lemma encode_unrecognized:
  "has_unrecognized data \<Longrightarrow> \<exists>e. encode env data message_type = Inl e"
  using resolve_unrecognized(1) [of data]
  by (auto simp: encode_def orjson_dumps_def)

lemma send_body_unrecognized:
  "has_unrecognized data \<Longrightarrow> send_body env data message_type p w = (PNone, w)"
  using encode_unrecognized [of data env message_type]
  by (auto simp: send_body_def)

text \<open>
  C1 (as the code has it). The encoding stands inside the \<^verbatim>\<open>try\<close> block of \<^verbatim>\<open>_send\<close>,
  whose handler catches every exception: for a payload with an object that the encoder
  hands to the hook and the hook does not recognize, the call returns \<open>None\<close>, opens
  no connection to the viewer and sends no frame, whatever the port argument. Only the
  port resolver, which runs before the block when no port is given and none is set, can
  raise.
\<close>

theorem unrecognized_object_returns_none:
  assumes "has_unrecognized data"
  shows "(case fst (private_send env data message_type port w) of
            Inr r \<Rightarrow> r = PNone
          | Inl e \<Rightarrow> port = None \<and> \<not> INIT_DONE w \<and> fst (discover env w) = Inl e)
     \<and> trace (snd (private_send env data message_type port w)) = trace w
     \<and> private_send env data message_type (Some p) w = (Inr PNone, w)
     \<and> send_data env data (Some p) w = (Inr PNone, w)
     \<and> send_command env data (Some p) w = (Inr PNone, w)
     \<and> send_backend env data (Some p) w = (Inr PNone, w)
     \<and> send_response env data (Some p) w = (Inr PNone, w)
     \<and> send_data env data port w = private_send env data DATA port w
     \<and> send_command env data port w = private_send env data COMMAND port w
     \<and> send_backend env data port w = private_send env data BACKEND port w
     \<and> send_response env data port w = private_send env data BACKEND_RESPONSE port w"
proof -
  obtain r w0 where sp: "send_port env port w = (r, w0)" by (cases "send_port env port w")
  have t: "trace w0 = trace w" using send_port_trace [of env port w] by (simp add: sp)
  have a: "(case fst (private_send env data message_type port w) of
            Inr r \<Rightarrow> r = PNone
          | Inl e \<Rightarrow> port = None \<and> \<not> INIT_DONE w \<and> fst (discover env w) = Inl e)
     \<and> trace (snd (private_send env data message_type port w)) = trace w"
  proof (cases r)
    case (Inl e)
    with sp send_port_error [of env port w e w0] show ?thesis
      by (simp add: private_send_via_port t)
  next
    case (Inr q)
    with sp show ?thesis
      by (simp add: private_send_via_port send_body_unrecognized [OF assms] t)
  qed
  have b: "private_send env data message_type (Some p) w = (Inr PNone, w)" for message_type
    by (simp add: private_send_def send_body_unrecognized [OF assms])
  show ?thesis
    using a b
    by (simp add: send_data_def send_command_def send_backend_def send_response_def)
qed

theorem unrecognized_object_returns_none_witness:
  "has_unrecognized (PList [PInt 1, Object ''<class Part>''])
   \<and> send_data example_env (PList [PInt 1, Object ''<class Part>'']) (Some (IntPort 3939)) (initial_world [])
       = (Inr PNone, initial_world [])
   \<and> fst (send_command viewer_3940_env (PList [PInt 1, Object ''<class Part>'']) None
            (initial_world one_alive_store)) = Inr PNone
   \<and> trace (snd (send_command viewer_3940_env (PList [PInt 1, Object ''<class Part>'']) None
            (initial_world one_alive_store))) = []"
proof -
  have h: "has_unrecognized (PList [PInt 1, Object ''<class Part>''])" by simp
  have t: "trace (initial_world one_alive_store) = []" by (simp add: initial_world_def)
  have n: "\<And>e. fst (discover viewer_3940_env (initial_world one_alive_store)) \<noteq> Inl e"
    by (simp add: one_alive_discover)
  show ?thesis
    using unrecognized_object_returns_none [OF h, where env = example_env
        and p = "IntPort 3939" and w = "initial_world []" and port = None
        and message_type = DATA]
      unrecognized_object_returns_none [OF h, where env = viewer_3940_env
        and port = None and message_type = COMMAND and w = "initial_world one_alive_store"
        and p = "IntPort 3939"]
      h n
    by (cases "fst (private_send viewer_3940_env (PList [PInt 1, Object ''<class Part>'']) COMMAND
          None (initial_world one_alive_store))") (simp_all add: t)
qed

text \<open>
  C1 as stated fails: a payload with an unrecognized object makes \<^verbatim>\<open>send_data\<close> return
  \<open>None\<close>, not raise.
\<close>

theorem unrecognized_object_does_not_raise:
  "fst (send_data example_env (PDict [(''part'', Object ''<class Part>'')]) (Some (IntPort 3939))
          (initial_world [])) = Inr PNone
   \<and> (\<forall>e. fst (send_data example_env (PDict [(''part'', Object ''<class Part>'')])
          (Some (IntPort 3939)) (initial_world [])) \<noteq> Inl e)"
  by (simp add: send_data_def private_send_def send_body_def encode_def orjson_dumps_def)

text \<open>
  C5. Every send first settles its port; only the discovery that runs when no port is
  given and none is set can raise, and then that exception leaves the call. Once the port
  is settled: a command whose frame is sent gets its reply received, parsed and returned;
  any other kind returns \<open>None\<close> after sending, with no receive; a failure to connect or
  to send returns \<open>None\<close>; and no exception leaves the call.
\<close>

theorem send_outcomes:
  "(\<forall>e w0. send_port env port w = (Inl e, w0) \<longrightarrow>
        private_send env data message_type port w = (Inl e, w0)
        \<and> port = None \<and> \<not> INIT_DONE w \<and> discover env w = (Inl e, w0))
   \<and> (\<forall>p w0. send_port env port w = (Inr p, w0) \<longrightarrow>
        (encode env data COMMAND = Inr j \<and> ws_connect env (url_of p) = None
            \<and> ws_send env j = None \<and> ws_recv env j = Inr m \<and> json_loads env m = Inr r
          \<longrightarrow> fst (private_send env data COMMAND port w) = Inr r
              \<and> trace (snd (private_send env data COMMAND port w))
                  = trace w @ [Connect (url_of p) None, Send j, Recv m]
                      @ (case ws_close env of None \<Rightarrow> [Close] | Some ex \<Rightarrow> []))
      \<and> (message_type \<noteq> COMMAND \<and> encode env data message_type = Inr j
            \<and> ws_connect env (url_of p) = None \<and> ws_send env j = None
          \<longrightarrow> fst (private_send env data message_type port w) = Inr PNone
              \<and> trace (snd (private_send env data message_type port w))
                  = trace w @ [Connect (url_of p) None, Send j]
                      @ (case ws_close env of None \<Rightarrow> [Close] | Some ex \<Rightarrow> []))
      \<and> (ws_connect env (url_of p) \<noteq> None
            \<or> (encode env data message_type = Inr j \<and> ws_send env j \<noteq> None)
          \<longrightarrow> fst (private_send env data message_type port w) = Inr PNone
              \<and> trace (snd (private_send env data message_type port w))
                  = trace w @ (if ws_connect env (url_of p) \<noteq> None
                                  \<or> (\<exists>e. encode env data message_type = Inl e) then []
                               else [Connect (url_of p) None]))
      \<and> (\<forall>e. fst (private_send env data message_type port w) \<noteq> Inl e))"
proof -
  have a: "send_port env port w = (Inl e, w0) \<longrightarrow>
        private_send env data message_type port w = (Inl e, w0)
        \<and> port = None \<and> \<not> INIT_DONE w \<and> discover env w = (Inl e, w0)" for e w0
    using send_port_error [of env port w e w0] by (simp add: private_send_via_port)
  have b: "(encode env data COMMAND = Inr j \<and> ws_connect env (url_of p) = None
            \<and> ws_send env j = None \<and> ws_recv env j = Inr m \<and> json_loads env m = Inr r
          \<longrightarrow> fst (private_send env data COMMAND port w) = Inr r
              \<and> trace (snd (private_send env data COMMAND port w))
                  = trace w @ [Connect (url_of p) None, Send j, Recv m]
                      @ (case ws_close env of None \<Rightarrow> [Close] | Some ex \<Rightarrow> []))
      \<and> (message_type \<noteq> COMMAND \<and> encode env data message_type = Inr j
            \<and> ws_connect env (url_of p) = None \<and> ws_send env j = None
          \<longrightarrow> fst (private_send env data message_type port w) = Inr PNone
              \<and> trace (snd (private_send env data message_type port w))
                  = trace w @ [Connect (url_of p) None, Send j]
                      @ (case ws_close env of None \<Rightarrow> [Close] | Some ex \<Rightarrow> []))
      \<and> (ws_connect env (url_of p) \<noteq> None
            \<or> (encode env data message_type = Inr j \<and> ws_send env j \<noteq> None)
          \<longrightarrow> fst (private_send env data message_type port w) = Inr PNone
              \<and> trace (snd (private_send env data message_type port w))
                  = trace w @ (if ws_connect env (url_of p) \<noteq> None
                                  \<or> (\<exists>e. encode env data message_type = Inl e) then []
                               else [Connect (url_of p) None]))
      \<and> (\<forall>e. fst (private_send env data message_type port w) \<noteq> Inl e)"
    if sp: "send_port env port w = (Inr p, w0)" for p w0
  proof -
    have t: "trace w0 = trace w" using send_port_trace [of env port w] by (simp add: sp)
    have ps: "private_send env data mt port w
        = (Inr (fst (send_body env data mt p w0)), snd (send_body env data mt p w0))" for mt
      by (simp add: private_send_via_port sp)
    have b1: "encode env data COMMAND = Inr j \<and> ws_connect env (url_of p) = None
            \<and> ws_send env j = None \<and> ws_recv env j = Inr m \<and> json_loads env m = Inr r
          \<longrightarrow> fst (private_send env data COMMAND port w) = Inr r
              \<and> trace (snd (private_send env data COMMAND port w))
                  = trace w @ [Connect (url_of p) None, Send j, Recv m]
                      @ (case ws_close env of None \<Rightarrow> [Close] | Some ex \<Rightarrow> [])"
      by (auto simp: ps send_body_def emit_def Let_def t split: option.splits)
    have b2: "message_type \<noteq> COMMAND \<and> encode env data message_type = Inr j
            \<and> ws_connect env (url_of p) = None \<and> ws_send env j = None
          \<longrightarrow> fst (private_send env data message_type port w) = Inr PNone
              \<and> trace (snd (private_send env data message_type port w))
                  = trace w @ [Connect (url_of p) None, Send j]
                      @ (case ws_close env of None \<Rightarrow> [Close] | Some ex \<Rightarrow> [])"
      by (auto simp: ps send_body_def emit_def Let_def t split: option.splits)
    have b3: "ws_connect env (url_of p) \<noteq> None
            \<or> (encode env data message_type = Inr j \<and> ws_send env j \<noteq> None)
          \<longrightarrow> fst (private_send env data message_type port w) = Inr PNone
              \<and> trace (snd (private_send env data message_type port w))
                  = trace w @ (if ws_connect env (url_of p) \<noteq> None
                                  \<or> (\<exists>e. encode env data message_type = Inl e) then []
                               else [Connect (url_of p) None])"
      by (auto simp: ps send_body_def emit_def Let_def t split: option.splits sum.splits)
    have b4: "\<forall>e. fst (private_send env data message_type port w) \<noteq> Inl e"
      by (simp add: ps)
    from b1 b2 b3 b4 show ?thesis by blast
  qed
  from a b show ?thesis by blast
qed

theorem send_outcomes_witness:
  "fst (private_send example_env (PDict []) COMMAND (Some (IntPort 3939)) (initial_world []))
     = Inr (PDict [])
   \<and> trace (snd (private_send example_env (PDict []) COMMAND (Some (IntPort 3939)) (initial_world [])))
     = [Connect ''ws://127.0.0.1:3939'' None, Send ''C:{}'', Recv ''{}'', Close]
   \<and> fst (private_send example_env (PDict []) DATA (Some (IntPort 3939)) (initial_world []))
     = Inr PNone
   \<and> trace (snd (private_send example_env (PDict []) DATA (Some (IntPort 3939)) (initial_world [])))
     = [Connect ''ws://127.0.0.1:3939'' None, Send ''D:{}'', Close]
   \<and> ws_connect example_env (url_of (IntPort 3941)) = Some (OSError ''ws://127.0.0.1:3941'')
   \<and> fst (private_send example_env (PDict []) DATA (Some (IntPort 3941)) (initial_world []))
     = Inr PNone
   \<and> trace (snd (private_send example_env (PDict []) DATA (Some (IntPort 3941)) (initial_world [])))
     = []
   \<and> send_port viewer_3940_env None (initial_world one_alive_store)
     = (Inr (StrPort ''3940''),
        (initial_world one_alive_store)\<lparr>CMD_PORT := StrPort ''3940'', INIT_DONE := True,
            state_store := [one_alive_store ! 1]\<rparr>)
   \<and> fst (private_send viewer_3940_env (PDict []) DATA None (initial_world one_alive_store))
     = Inr PNone
   \<and> trace (snd (private_send viewer_3940_env (PDict []) DATA None (initial_world one_alive_store)))
     = [Connect ''ws://127.0.0.1:3940'' None, Send ''D:{}'', Close]
   \<and> fst (private_send example_env (PDict []) DATA None (initial_world none_alive_store))
     = Inl (RuntimeError no_port_message)"
proof -
  let ?w = "initial_world []"
  let ?wa = "initial_world one_alive_store"
  let ?wb = "?wa\<lparr>CMD_PORT := StrPort ''3940'', INIT_DONE := True,
            state_store := [one_alive_store ! 1]\<rparr>"
  let ?wn = "initial_world none_alive_store"
  have sp: "send_port example_env (Some (IntPort 3939)) ?w = (Inr (IntPort 3939), ?w)"
    "send_port example_env (Some (IntPort 3941)) ?w = (Inr (IntPort 3941), ?w)"
    by (simp_all add: send_port_def)
  have i: "\<not> INIT_DONE ?wa" "\<not> INIT_DONE ?wn" by (simp_all add: initial_world_def)
  have sp1: "send_port viewer_3940_env None ?wa = (Inr (StrPort ''3940''), ?wb)"
    by (simp add: send_port_def i one_alive_discover)
  obtain w0' where d0: "discover example_env ?wn = (Inl (RuntimeError no_port_message), w0')"
    using none_alive_discover by (cases "discover example_env ?wn") auto
  have sp0: "send_port example_env None ?wn = (Inl (RuntimeError no_port_message), w0')"
    by (simp add: send_port_def i d0)
  have u: "url_of (IntPort 3941) = ''ws://127.0.0.1:3941''" by code_simp
  have u1: "url_of (StrPort ''3940'') = ''ws://127.0.0.1:3940''"
    by (simp add: url_of_def CMD_URL_def)
  have ec: "encode example_env (PDict []) COMMAND = Inr ''C:{}''"
    by (simp add: encode_def add_prefix_def dumps_empty)
  have ed: "encode example_env (PDict []) DATA = Inr ''D:{}''"
    by (simp add: encode_def add_prefix_def dumps_empty)
  have ed1: "encode viewer_3940_env (PDict []) DATA = Inr ''D:{}''"
    by (simp add: encode_def add_prefix_def orjson_dumps_def viewer_3940_env_def example_env_def)
  have net: "ws_connect example_env ''ws://127.0.0.1:3939'' = None"
    "ws_connect example_env ''ws://127.0.0.1:3941'' = Some (OSError ''ws://127.0.0.1:3941'')"
    "ws_send example_env ''C:{}'' = None" "ws_send example_env ''D:{}'' = None"
    "ws_recv example_env ''C:{}'' = Inr ''{}''" "json_loads example_env ''{}'' = Inr (PDict [])"
    "ws_close example_env = None"
    "ws_connect viewer_3940_env ''ws://127.0.0.1:3940'' = None"
    "ws_send viewer_3940_env ''D:{}'' = None" "ws_close viewer_3940_env = None"
    by (simp_all add: example_env_def viewer_3940_env_def)
  have tr: "trace ?w = []" "trace ?wa = []" by (simp_all add: initial_world_def)
  note c = send_outcomes [where env = example_env and port = "Some (IntPort 3939)" and w = ?w
        and data = "PDict []" and j = "''C:{}''" and m = "''{}''" and r = "PDict []"
        and message_type = COMMAND, THEN conjunct2, rule_format, OF sp(1), THEN conjunct1]
  have r1: "fst (private_send example_env (PDict []) COMMAND (Some (IntPort 3939)) ?w) = Inr (PDict [])
      \<and> trace (snd (private_send example_env (PDict []) COMMAND (Some (IntPort 3939)) ?w))
        = [Connect ''ws://127.0.0.1:3939'' None, Send ''C:{}'', Recv ''{}'', Close]"
    using c by (simp add: url_3939 ec net tr)
  note d = send_outcomes [where env = example_env and port = "Some (IntPort 3939)" and w = ?w
        and data = "PDict []" and j = "''D:{}''" and message_type = DATA,
        THEN conjunct2, rule_format, OF sp(1), THEN conjunct2, THEN conjunct1]
  have r2: "fst (private_send example_env (PDict []) DATA (Some (IntPort 3939)) ?w) = Inr PNone
      \<and> trace (snd (private_send example_env (PDict []) DATA (Some (IntPort 3939)) ?w))
        = [Connect ''ws://127.0.0.1:3939'' None, Send ''D:{}'', Close]"
    using d by (simp add: url_3939 ed net tr)
  note f = send_outcomes [where env = example_env and port = "Some (IntPort 3941)" and w = ?w
        and data = "PDict []" and j = "''D:{}''" and message_type = DATA,
        THEN conjunct2, rule_format, OF sp(2), THEN conjunct2, THEN conjunct2, THEN conjunct1]
  have r3: "fst (private_send example_env (PDict []) DATA (Some (IntPort 3941)) ?w) = Inr PNone
      \<and> trace (snd (private_send example_env (PDict []) DATA (Some (IntPort 3941)) ?w)) = []"
    using f by (simp add: u net tr)
  note g = send_outcomes [where env = viewer_3940_env and port = None and w = ?wa
        and data = "PDict []" and j = "''D:{}''" and message_type = DATA,
        THEN conjunct2, rule_format, OF sp1, THEN conjunct2, THEN conjunct1]
  have r4: "fst (private_send viewer_3940_env (PDict []) DATA None ?wa) = Inr PNone
      \<and> trace (snd (private_send viewer_3940_env (PDict []) DATA None ?wa))
        = [Connect ''ws://127.0.0.1:3940'' None, Send ''D:{}'', Close]"
    using g by (simp add: u1 ed1 net tr)
  note h = send_outcomes [where env = example_env and port = None and w = ?wn
        and data = "PDict []" and message_type = DATA,
        THEN conjunct1, rule_format, OF sp0, THEN conjunct1]
  have r5: "fst (private_send example_env (PDict []) DATA None ?wn)
      = Inl (RuntimeError no_port_message)"
    using h by simp
  have r0: "ws_connect example_env (url_of (IntPort 3941)) = Some (OSError ''ws://127.0.0.1:3941'')"
    by (simp add: u net)
  from r1 r2 r3 r4 r5 r0 sp1 show ?thesis by blast
qed

section \<open>Properties of the listener\<close>

lemma dict_set_fresh: "k \<notin> set (map fst d) \<Longrightarrow> dict_set k v d = d @ [(k, v)]"
  by (induction d) auto

lemma changes_loop_delta:
  "distinct (map fst items) \<Longrightarrow> set (map fst acc) \<inter> set (map fst items) = {} \<Longrightarrow>
   changes_loop last_config items acc = acc @ spec_delta last_config items"
proof (induction items arbitrary: acc)
  case Nil
  show ?case by (simp add: spec_delta_def)
next
  case (Cons kv items)
  obtain k v where kv: "kv = (k, v)" by (cases kv)
  from Cons.prems kv have d: "distinct (map fst items)" and kn: "k \<notin> set (map fst items)"
    and ka: "k \<notin> set (map fst acc)" and dis: "set (map fst acc) \<inter> set (map fst items) = {}"
    by auto
  show ?case
  proof (cases "case dict_get last_config k of None \<Rightarrow> False | Some old \<Rightarrow> py_eq old v")
    case True
    then show ?thesis
      using Cons.IH [OF d dis] by (auto simp: kv spec_delta_def split: option.splits)
  next
    case False
    have dis': "set (map fst (acc @ [(k, v)])) \<inter> set (map fst items) = {}"
      using dis kn by auto
    from False show ?thesis
      using Cons.IH [OF d dis'] by (auto simp: kv spec_delta_def dict_set_fresh [OF ka] split: option.splits)
  qed
qed

lemma model_in_keys: "(''model'' \<in> set (dict_keys message)) = (dict_get message ''model'' \<noteq> None)"
  by (simp add: dict_keys_def dict_get_def map_of_eq_None_iff)

lemma status_part_status:
  assumes "dict_get message ''command'' = Some (PStr ''status'')"
    and "dict_get message ''text'' = Some (PDict changes)"
  shows "status_part cb last_config message w
     = (cb (PDict (changes_loop last_config changes [])) UPDATES, changes,
        emit (Callback (PDict (changes_loop last_config changes [])) UPDATES) w)"
  using assms by (simp add: status_part_def Let_def)

text \<open>
  C4. A message whose command is \<^verbatim>\<open>status\<close> and whose text is a mapping (and whose
  model, if it has one, the callback took without raising): the delta handed to the
  callback with kind UPDATES holds exactly the items of the new snapshot that are absent
  from the previous one or differ from it, the callback is invoked whatever the delta
  (an empty one too), and the snapshot kept is the whole new snapshot. From
  \<^verbatim>\<open>{"a":1,"b":2}\<close> and \<^verbatim>\<open>{"a":1,"b":3,"c":4}\<close> the delta is \<^verbatim>\<open>{"b":3,"c":4}\<close>.
\<close>

theorem status_delta:
  assumes "json_loads env frame = Inr (PDict message)"
    and "dict_get message ''command'' = Some (PStr ''status'')"
    and "dict_get message ''text'' = Some (PDict changes)"
    and "distinct (map fst changes)"
    and "case dict_get message ''model'' of None \<Rightarrow> True | Some model \<Rightarrow> cb model DATA = None"
  shows "handle_message env cb last_config frame w
     = (cb (PDict (spec_delta last_config changes)) UPDATES,
        changes,
        emit (Callback (PDict (spec_delta last_config changes)) UPDATES)
          (case dict_get message ''model'' of None \<Rightarrow> w | Some model \<Rightarrow> emit (Callback model DATA) w))"
proof -
  have d: "changes_loop last_config changes [] = spec_delta last_config changes"
    using changes_loop_delta [OF assms(4), of "[]" last_config] by simp
  show ?thesis
  proof (cases "dict_get message ''model''")
    case None
    then show ?thesis
      by (simp add: handle_message_def assms(1) model_in_keys
          status_part_status [OF assms(2) assms(3)] d)
  next
    case (Some model)
    with assms(5) have "cb model DATA = None" by simp
    then show ?thesis
      by (simp add: handle_message_def assms(1) model_in_keys Some Let_def
          status_part_status [OF assms(2) assms(3)] d)
  qed
qed

text \<open>
  C9. The two branches of the dispatcher are not exclusive: a message with a model and
  with the command \<^verbatim>\<open>status\<close> (its text a mapping) has the callback invoked twice,
  first with the model and kind DATA, then, when that call returns, with the status delta
  and kind UPDATES.
\<close>

theorem model_and_status_both_dispatched:
  assumes "json_loads env frame = Inr (PDict message)"
    and "dict_get message ''model'' = Some model"
    and "dict_get message ''command'' = Some (PStr ''status'')"
    and "dict_get message ''text'' = Some (PDict changes)"
    and "cb model DATA = None"
  shows "trace (snd (snd (handle_message env cb last_config frame w)))
     = trace w @ [Callback model DATA,
                  Callback (PDict (changes_loop last_config changes [])) UPDATES]"
  by (simp add: handle_message_def assms(1) model_in_keys assms(2) assms(5) Let_def
      status_part_status [OF assms(3) assms(4)] emit_def)

lemma status_env_loads: "json_loads (status_env message) frame = Inr message"
  by (simp add: status_env_def example_env_def)

lemma example_delta:
  "spec_delta [(''a'', PInt 1), (''b'', PInt 2)] [(''a'', PInt 1), (''b'', PInt 3), (''c'', PInt 4)]
     = [(''b'', PInt 3), (''c'', PInt 4)]"
  "spec_delta [(''a'', PInt 1), (''b'', PInt 3), (''c'', PInt 4)]
       [(''a'', PInt 1), (''b'', PInt 3), (''c'', PInt 4)] = []"
  by (simp_all add: spec_delta_def dict_get_def)

theorem status_delta_witness:
  "handle_message (status_env (PDict status_message)) (\<lambda>payload kind. None)
       [(''a'', PInt 1), (''b'', PInt 2)] ''frame'' (initial_world [])
     = (None, [(''a'', PInt 1), (''b'', PInt 3), (''c'', PInt 4)],
        emit (Callback (PDict [(''b'', PInt 3), (''c'', PInt 4)]) UPDATES) (initial_world []))
   \<and> handle_message (status_env (PDict status_message)) (\<lambda>payload kind. None)
       [(''a'', PInt 1), (''b'', PInt 3), (''c'', PInt 4)] ''frame'' (initial_world [])
     = (None, [(''a'', PInt 1), (''b'', PInt 3), (''c'', PInt 4)],
        emit (Callback (PDict []) UPDATES) (initial_world []))"
proof -
  let ?new = "[(''a'', PInt 1), (''b'', PInt 3), (''c'', PInt 4)]"
  have h1: "json_loads (status_env (PDict status_message)) ''frame'' = Inr (PDict status_message)"
    by (rule status_env_loads)
  have h2: "dict_get status_message ''command'' = Some (PStr ''status'')"
    by (simp add: status_message_def dict_get_def)
  have h3: "dict_get status_message ''text'' = Some (PDict ?new)"
    by (simp add: status_message_def dict_get_def)
  have h4: "distinct (map fst ?new)" by simp
  have m: "dict_get status_message ''model'' = None"
    by (simp add: status_message_def dict_get_def)
  have h5: "case dict_get status_message ''model'' of None \<Rightarrow> True
            | Some model \<Rightarrow> (\<lambda>payload kind. None) model DATA = None"
    by (simp add: m)
  show ?thesis
    using status_delta [OF h1 h2 h3 h4 h5, of "[(''a'', PInt 1), (''b'', PInt 2)]" "initial_world []"]
      status_delta [OF h1 h2 h3 h4 h5, of ?new "initial_world []"]
    by (simp add: example_delta m)
qed

theorem model_and_status_both_dispatched_witness:
  "trace (snd (snd (handle_message (status_env (PDict model_status_message)) (\<lambda>payload kind. None)
       [(''a'', PInt 1), (''b'', PInt 2)] ''frame'' (initial_world []))))
     = [Callback (PDict [(''x'', PInt 1)]) DATA,
        Callback (PDict [(''b'', PInt 3), (''c'', PInt 4)]) UPDATES]"
proof -
  let ?new = "[(''a'', PInt 1), (''b'', PInt 3), (''c'', PInt 4)]"
  have h1: "json_loads (status_env (PDict model_status_message)) ''frame''
      = Inr (PDict model_status_message)"
    by (rule status_env_loads)
  have h2: "dict_get model_status_message ''model'' = Some (PDict [(''x'', PInt 1)])"
    by (simp add: model_status_message_def dict_get_def)
  have h3: "dict_get model_status_message ''command'' = Some (PStr ''status'')"
    by (simp add: model_status_message_def dict_get_def)
  have h4: "dict_get model_status_message ''text'' = Some (PDict ?new)"
    by (simp add: model_status_message_def dict_get_def)
  have h5: "(\<lambda>payload kind. None) (PDict [(''x'', PInt 1)]) DATA = (None :: exn option)" by simp
  have c: "changes_loop [(''a'', PInt 1), (''b'', PInt 2)] ?new [] = [(''b'', PInt 3), (''c'', PInt 4)]"
    by (simp add: dict_get_def)
  have t: "trace (initial_world []) = []" by (simp add: initial_world_def)
  show ?thesis
    using model_and_status_both_dispatched [OF h1 h2 h3 h4 h5,
        of "[(''a'', PInt 1), (''b'', PInt 2)]" "initial_world []"]
    unfolding c t by simp
qed

lemma status_part_trace:
  "\<exists>evs. trace (snd (snd (status_part cb last_config message w))) = trace w @ evs
     \<and> \<not> list_ex is_connect evs"
  by (auto simp: status_part_def emit_def Let_def split: option.splits pyobj.splits)

lemma handle_message_trace:
  "\<exists>evs. trace (snd (snd (handle_message env cb last_config frame w))) = trace w @ evs
     \<and> \<not> list_ex is_connect evs"
proof (cases "json_loads env frame")
  case (Inl ex)
  then show ?thesis by (simp add: handle_message_def)
next
  case (Inr parsed)
  show ?thesis
  proof (cases "\<exists>message. parsed = PDict message")
    case False
    then show ?thesis by (auto simp: handle_message_def Inr split: pyobj.splits)
  next
    case True
    then obtain message where p: "parsed = PDict message" by blast
    show ?thesis
    proof (cases "dict_get message ''model''")
      case None
      then show ?thesis
        using status_part_trace [of cb last_config message w]
        by (simp add: handle_message_def Inr p model_in_keys)
    next
      case (Some model)
      show ?thesis
      proof (cases "cb model DATA")
        case (Some ex)
        then show ?thesis
          by (simp add: handle_message_def Inr p model_in_keys \<open>dict_get message ''model'' = Some model\<close>
              Let_def emit_def)
      next
        case None
        obtain evs where e: "trace (snd (snd (status_part cb last_config message (emit (Callback model DATA) w))))
            = trace (emit (Callback model DATA) w) @ evs" "\<not> list_ex is_connect evs"
          using status_part_trace [of cb last_config message "emit (Callback model DATA) w"] by blast
        have "trace (snd (snd (handle_message env cb last_config frame w)))
            = trace w @ (Callback model DATA # evs)"
          using e(1)
          by (simp add: handle_message_def Inr p model_in_keys \<open>dict_get message ''model'' = Some model\<close>
              Let_def None emit_def)
        moreover have "\<not> list_ex is_connect (Callback model DATA # evs)"
          using e(2) by simp
        ultimately show ?thesis by blast
      qed
    qed
  qed
qed

lemma listen_loop_trace:
  "\<exists>evs. trace (snd (listen_loop env cb last_config inbound w)) = trace w @ evs
     \<and> \<not> list_ex is_connect evs"
proof (induction inbound arbitrary: last_config w)
  case Nil
  show ?case by simp
next
  case (Cons received inbound)
  show ?case
  proof (cases received)
    case None
    then show ?thesis using Cons.IH by simp
  next
    case (Some frame)
    obtain ex lc' w' where h: "handle_message env cb last_config frame (emit (Recv frame) w) = (ex, lc', w')"
      by (cases "handle_message env cb last_config frame (emit (Recv frame) w)") auto
    obtain evs where e: "trace w' = trace (emit (Recv frame) w) @ evs" "\<not> list_ex is_connect evs"
      using handle_message_trace [of env cb last_config frame "emit (Recv frame) w"]
      unfolding h snd_conv by blast
    show ?thesis
    proof (cases ex)
      case (Some raised)
      have "trace w' = trace w @ (Recv frame # evs)" using e(1) by (simp add: emit_def)
      moreover have "\<not> list_ex is_connect (Recv frame # evs)" using e(2) by simp
      moreover have "listen_loop env cb last_config (received # inbound) w = (lc', w')"
        by (simp add: \<open>received = Some frame\<close> h Some)
      ultimately show ?thesis
        by (metis snd_conv)
    next
      case None
      obtain evs' where e': "trace (snd (listen_loop env cb lc' inbound w')) = trace w' @ evs'"
          "\<not> list_ex is_connect evs'"
        using Cons.IH [of lc' w'] by blast
      have "trace (snd (listen_loop env cb lc' inbound w')) = trace w @ (Recv frame # evs @ evs')"
        using e(1) e'(1) by (simp add: emit_def)
      moreover have "\<not> list_ex is_connect (Recv frame # evs @ evs')"
        using e(2) e'(2) by simp
      moreover have "listen_loop env cb last_config (received # inbound) w
          = listen_loop env cb lc' inbound w'"
        by (simp add: \<open>received = Some frame\<close> h None)
      ultimately show ?thesis
        by metis
    qed
  qed
qed

text \<open>
  C6 (as the code has it). The listener opens one connection, with \<^verbatim>\<open>max_size\<close> set
  to \<open>2 ^ 28\<close>, and the first thing it sends is the frame \<^verbatim>\<open>L:register\<close>: the tag
  \<^verbatim>\<open>L\<close>, the separator and the literal text \<^verbatim>\<open>register\<close>, which is not JSON.
\<close>

theorem listener_registration:
  assumes "ws_connect env (url_of (CMD_PORT w)) = None"
    and "ws_send env ''L:register'' = None"
  shows "\<exists>evs. trace (snd (listener env cb inbound w))
           = trace w @ [Connect (url_of (CMD_PORT w)) (Some (2 ^ 28)), Send (''L:'' @ ''register'')] @ evs
         \<and> \<not> list_ex is_connect evs"
proof -
  let ?w1 = "emit (Send ''L:register'') (emit (Connect (url_of (CMD_PORT w)) (Some (2 ^ 28))) w)"
  obtain lc w2 where l: "listen_loop env cb [] inbound ?w1 = (lc, w2)"
    by (cases "listen_loop env cb [] inbound ?w1")
  obtain evs where e: "trace w2 = trace ?w1 @ evs" "\<not> list_ex is_connect evs"
    using listen_loop_trace [of env cb "[]" inbound ?w1] unfolding l snd_conv by blast
  have t1: "trace ?w1 = trace w @ [Connect (url_of (CMD_PORT w)) (Some (2 ^ 28)), Send ''L:register'']"
    by (simp add: emit_def)
  have pl: "private_listen env cb inbound w
      = (case ws_close env of Some ex \<Rightarrow> (Inl ex, w2) | None \<Rightarrow> (Inr (), emit Close w2))"
    unfolding private_listen_def assms Let_def l by simp
  show ?thesis
  proof (cases "ws_close env")
    case None
    have "trace (snd (listener env cb inbound w))
        = trace w @ [Connect (url_of (CMD_PORT w)) (Some (2 ^ 28)), Send (''L:'' @ ''register'')]
            @ (evs @ [Close])"
      unfolding listener_def pl None using e(1) t1 by (simp add: emit_def)
    moreover have "\<not> list_ex is_connect (evs @ [Close])" using e(2) by simp
    ultimately show ?thesis by blast
  next
    case (Some ex)
    have "trace (snd (listener env cb inbound w))
        = trace w @ [Connect (url_of (CMD_PORT w)) (Some (2 ^ 28)), Send (''L:'' @ ''register'')] @ evs"
      unfolding listener_def pl Some using e(1) t1 by simp
    then show ?thesis using e(2) by blast
  qed
qed

lemma listener_example:
  "listener example_env (\<lambda>payload kind. None) [] (initial_world [])
     = (Inr (), (initial_world [])\<lparr>trace :=
          [Connect ''ws://127.0.0.1:3939'' (Some 268435456), Send ''L:register'', Close]\<rparr>)"
  by (simp add: listener_def private_listen_def initial_world_def url_3939 example_env_def emit_def)

theorem listener_registration_witness:
  "ws_connect example_env (url_of (CMD_PORT (initial_world []))) = None
   \<and> ws_send example_env ''L:register'' = None
   \<and> (\<exists>evs. trace (snd (listener example_env (\<lambda>payload kind. None) [] (initial_world [])))
           = [Connect ''ws://127.0.0.1:3939'' (Some 268435456), Send ''L:register''] @ evs
         \<and> \<not> list_ex is_connect evs)"
proof -
  have h1: "ws_connect example_env (url_of (CMD_PORT (initial_world []))) = None"
    by (simp add: initial_world_def url_3939 example_env_def)
  have h2: "ws_send example_env ''L:register'' = None"
    by (simp add: example_env_def)
  have u: "url_of (CMD_PORT (initial_world [])) = ''ws://127.0.0.1:3939''"
    by (simp add: initial_world_def url_3939)
  have t: "trace (initial_world []) = []" by (simp add: initial_world_def)
  show ?thesis
    using listener_registration [OF h1 h2, of "\<lambda>payload kind. None" "[]"] h1 h2
    unfolding u t by simp
qed

text \<open>
  C6 as stated fails: the payload of the registration frame is \<^verbatim>\<open>register\<close>, and no
  frame \<^verbatim>\<open>L:listen\<close> is sent.
\<close>

theorem registration_payload_is_register:
  "trace (snd (listener example_env (\<lambda>payload kind. None) [] (initial_world [])))
     = [Connect ''ws://127.0.0.1:3939'' (Some (2 ^ 28)), Send ''L:register'', Close]
   \<and> Send ''L:listen'' \<notin> set (trace (snd (listener example_env (\<lambda>payload kind. None) []
        (initial_world []))))"
  by (simp add: listener_example)

text \<open>
  C7. In a fresh process whose State Store holds the one viewer, on port 3940,
  \<^verbatim>\<open>get_port\<close> and a send with no port resolve the port 3940 first; the listener
  resolves nothing and goes to the initial port 3939, where the connection is refused,
  leaving the globals and the store as they were.
\<close>

theorem listener_connects_without_discovery:
  "fst (get_port viewer_3940_env (initial_world one_alive_store)) = Inr (StrPort ''3940'')
   \<and> trace (snd (send_data viewer_3940_env (PDict []) None (initial_world one_alive_store)))
       = [Connect ''ws://127.0.0.1:3940'' None, Send ''D:{}'', Close]
   \<and> listener viewer_3940_env (\<lambda>payload kind. None) [] (initial_world one_alive_store)
       = (Inl (OSError ''ws://127.0.0.1:3939''), initial_world one_alive_store)"
proof -
  let ?w = "initial_world one_alive_store"
  have i: "\<not> INIT_DONE ?w" "CMD_PORT ?w = IntPort 3939" "trace ?w = []"
    by (simp_all add: initial_world_def)
  have k: "kernel viewer_3940_env = None" by (simp add: viewer_3940_env_def example_env_def)
  have d: "discover viewer_3940_env ?w
      = (Inr (), ?w\<lparr>CMD_PORT := StrPort ''3940'', INIT_DONE := True,
            state_store := [one_alive_store ! 1]\<rparr>)"
    by (simp add: discover_def find_and_set_port_no_override [OF viewer_3940_no_override]
        one_alive_find_port set_port_def set_connection_file_def k)
  have u: "url_of (StrPort ''3940'') = ''ws://127.0.0.1:3940''"
    by (simp add: url_of_def CMD_URL_def)
  have e: "encode viewer_3940_env (PDict []) DATA = Inr ''D:{}''"
    by (simp add: encode_def add_prefix_def orjson_dumps_def viewer_3940_env_def example_env_def)
  have n: "ws_connect viewer_3940_env ''ws://127.0.0.1:3940'' = None"
    "ws_connect viewer_3940_env ''ws://127.0.0.1:3939'' = Some (OSError ''ws://127.0.0.1:3939'')"
    "ws_send viewer_3940_env ''D:{}'' = None" "ws_close viewer_3940_env = None"
    by (simp_all add: viewer_3940_env_def example_env_def)
  have s: "trace (snd (send_data viewer_3940_env (PDict []) None ?w))
       = [Connect ''ws://127.0.0.1:3940'' None, Send ''D:{}'', Close]"
    by (simp add: send_data_def private_send_def i d send_body_def e u n emit_def Let_def)
  have l: "listener viewer_3940_env (\<lambda>payload kind. None) [] ?w
       = (Inl (OSError ''ws://127.0.0.1:3939''), ?w)"
    by (simp add: listener_def private_listen_def i url_3939 n)
  show ?thesis
    by (simp add: one_alive_get_port s l)
qed

lemma cached_port_reused:
  assumes "INIT_DONE w"
  shows "get_port env w = (Inr (CMD_PORT w), w)"
    and "private_send env data message_type None w
           = (Inr (fst (send_body env data message_type (CMD_PORT w) w)),
              snd (send_body env data message_type (CMD_PORT w) w))"
  using assms by (simp_all add: get_port_def private_send_def split: prod.splits)

end
